theory Spec2Isabelle
  imports Complex_Main "HOL-Library.AList" "HOL-Library.Product_Lexorder"
    "HOL-Library.Char_ord" "HOL-Library.List_Lexorder"
begin

section \<open>Python values\<close>

text \<open>
  The exceptions the engine can raise, as values.  \<open>ValueError\<close> carries the message of
  the source; \<open>KeyError\<close> carries the missing column label.
\<close>

datatype error = ValueError string | KeyError string | TypeError string | IndexError string

text \<open>
  A float is modelled by its exact value: every finite float is a rational number.  The
  divisions and means of the Criteria Combiner and the response rates are taken exact (no
  rounding); the subtractions of the Threshold Optimizer round as float64 does (below).
  The three special values the engine can produce are constructors of their own.
  Comparisons with \<open>NaN\<close> are false, as in IEEE 754; signed zeros are not distinguished.
\<close>

datatype pyfloat = Fin rat | PInf | NInf | NaN

fun fl_less :: "pyfloat \<Rightarrow> pyfloat \<Rightarrow> bool" where
  "fl_less (Fin a) (Fin b) = (a < b)"
| "fl_less (Fin a) PInf = True"
| "fl_less NInf (Fin b) = True"
| "fl_less NInf PInf = True"
| "fl_less _ _ = False"

fun fl_le :: "pyfloat \<Rightarrow> pyfloat \<Rightarrow> bool" where
  "fl_le NaN _ = False"
| "fl_le _ NaN = False"
| "fl_le a b = (a = b \<or> fl_less a b)"

fun fl_div :: "pyfloat \<Rightarrow> pyfloat \<Rightarrow> pyfloat" where
  "fl_div (Fin a) (Fin b) =
     (if b \<noteq> 0 then Fin (a / b)
      else if a = 0 then NaN else if 0 < a then PInf else NInf)"
| "fl_div (Fin a) PInf = Fin 0"
| "fl_div (Fin a) NInf = Fin 0"
| "fl_div PInf (Fin b) = (if 0 \<le> b then PInf else NInf)"
| "fl_div NInf (Fin b) = (if 0 \<le> b then NInf else PInf)"
| "fl_div _ _ = NaN"

text \<open>\<open>Series.mean()\<close> of a numeric series without missing values; \<open>NaN\<close> when empty.\<close>

definition fl_mean :: "rat list \<Rightarrow> pyfloat" where
  "fl_mean xs = (if xs = [] then NaN else Fin (sum_list xs / of_nat (length xs)))"

text \<open>\<open>mask.sum()\<close>: the number of true entries of a boolean series.\<close>

definition mask_sum :: "bool list \<Rightarrow> nat" where
  "mask_sum m = length (filter (\<lambda>b. b) m)"

text \<open>\<open>a & b\<close> on two boolean series over the same index.\<close>

definition mask_and :: "bool list \<Rightarrow> bool list \<Rightarrow> bool list" where
  "mask_and a b = map (\<lambda>(x, y). x \<and> y) (zip a b)"

text \<open>\<open>series[mask]\<close> followed by dropping the missing values.\<close>

definition masked_values :: "bool list \<Rightarrow> 'a option list \<Rightarrow> 'a list" where
  "masked_values m vs = List.map_filter (\<lambda>(b, v). if b then v else None) (zip m vs)"

section \<open>Float64 subtraction\<close>

text \<open>
  The Threshold Optimizer subtracts floats and compares the differences with one another
  and with the caller's bounds, so the rounding of these subtractions decides which
  threshold is selected.  \<open>f64_round\<close> rounds a rational number to the nearest float64,
  ties to the even significand, with 53 bits of precision and gradual underflow below
  \<open>2^-1022\<close>; overflow does not arise for the rates and probabilities subtracted here.
  \<open>f64_sub a b\<close> is the float64 difference of two floats \<open>a\<close> and \<open>b\<close>.
\<close>

function bit_length :: "int \<Rightarrow> int" where
  "bit_length n = (if n \<le> 0 then 0 else 1 + bit_length (n div 2))"
  by auto
termination by (relation "measure nat") auto

definition pow2 :: "int \<Rightarrow> rat" where
  "pow2 e = (if 0 \<le> e then of_int (2 ^ nat e) else 1 / of_int (2 ^ nat (- e)))"

text \<open>For \<open>x > 0\<close>, the exponent \<open>e\<close> with \<open>2^e \<le> x < 2^(e+1)\<close>.\<close>

definition floor_log2 :: "rat \<Rightarrow> int" where
  "floor_log2 x =
     (let (p, q) = quotient_of x;
          d = bit_length p - bit_length q
      in if pow2 d \<le> x then d else d - 1)"

definition round_half_even :: "rat \<Rightarrow> int" where
  "round_half_even y =
     (let f = \<lfloor>y\<rfloor>; r = y - of_int f
      in if r < 1 / 2 then f else if 1 / 2 < r then f + 1 else if even f then f else f + 1)"

definition f64_round :: "rat \<Rightarrow> rat" where
  "f64_round x =
     (if x = 0 then 0
      else (let e = max (floor_log2 \<bar>x\<bar>) (- 1022); ulp = pow2 (e - 52)
            in of_int (round_half_even (x / ulp)) * ulp))"

definition f64_sub :: "rat \<Rightarrow> rat \<Rightarrow> rat" where
  "f64_sub a b = f64_round (a - b)"

section \<open>The dataset\<close>

text \<open>
  A column of the patient table is numeric (continuous) or holds category labels; a cell
  may be missing.  The dataset is the frame the three analyzers are constructed with:
  \<open>n_rows\<close> is the length of its index, \<open>columns\<close> its columns by name, and \<open>outcome\<close>
  the series \<open>self.data[self.outcome_col]\<close>, the numeric 0/1 encoding that
  \<open>DataLoader.load\<close> adds to the frame.
\<close>

datatype column = NumCol "rat option list" | CatCol "string option list"

record dataset =
  n_rows :: nat
  columns :: "(string \<times> column) list"
  outcome :: "rat option list"

fun col_len :: "column \<Rightarrow> nat" where
  "col_len (NumCol vs) = length vs"
| "col_len (CatCol ls) = length ls"

text \<open>Every column of a frame has one cell per index entry.\<close>

definition wf_dataset :: "dataset \<Rightarrow> bool" where
  "wf_dataset d \<longleftrightarrow>
     length (outcome d) = n_rows d \<and> list_all (\<lambda>(n, c). col_len c = n_rows d) (columns d)"

fun notna :: "column \<Rightarrow> bool list" where
  "notna (NumCol vs) = map (\<lambda>v. v \<noteq> None) vs"
| "notna (CatCol ls) = map (\<lambda>l. l \<noteq> None) ls"

text \<open>
  \<open>self.data[biomarker] >= cutoff\<close>.  A missing cell compares false.  On a column of
  labels the comparison of a label with a number raises \<open>TypeError\<close>; missing cells are
  skipped before the comparison, so a column with no label at all compares false
  everywhere.
\<close>

fun col_ge :: "column \<Rightarrow> rat \<Rightarrow> error + bool list" where
  "col_ge (NumCol vs) c = Inr (map (\<lambda>v. case v of None \<Rightarrow> False | Some x \<Rightarrow> c \<le> x) vs)"
| "col_ge (CatCol ls) c =
     (if list_ex (\<lambda>l. l \<noteq> None) ls
      then Inl (TypeError ''>= not supported between instances of str and float'')
      else Inr (map (\<lambda>l. False) ls))"

section \<open>Result tables\<close>

text \<open>
  The result tables are frames built by \<open>pd.DataFrame(results)\<close> from a list of
  dictionaries with fixed keys.  From an empty list pandas builds a frame with no columns
  at all, on which \<open>frame["biomarker"]\<close> raises \<open>KeyError\<close>; filtering and \<open>head\<close> keep
  the columns, so a frame with columns may have no rows.
\<close>

datatype 'r frame = NoColumns | Frame "'r list"

definition DataFrame :: "'r list \<Rightarrow> 'r frame" where
  "DataFrame results = (if results = [] then NoColumns else Frame results)"

fun frame_rows :: "'r frame \<Rightarrow> 'r list" where
  "frame_rows NoColumns = []"
| "frame_rows (Frame rs) = rs"

text \<open>\<open>frame.empty\<close>: no rows or no columns.\<close>

definition df_empty :: "'r frame \<Rightarrow> bool" where
  "df_empty f \<longleftrightarrow> frame_rows f = []"

text \<open>\<open>frame.head(n)\<close>: the first \<open>n\<close> rows; for negative \<open>n\<close>, all but the last \<open>-n\<close>.\<close>

definition head_rows :: "int \<Rightarrow> 'r list \<Rightarrow> 'r list" where
  "head_rows n rs = (if 0 \<le> n then take (nat n) rs else take (length rs - nat (- n)) rs)"

record biomarker_result =
  br_biomarker :: string
  br_OR :: rat
  br_CI_lower :: rat
  br_CI_upper :: rat
  br_p_value :: rat
  br_AUC :: rat
  br_coefficient :: rat

text \<open>
  A Cutoff Result.  Its \<open>cutoff\<close> is a cell of the biomarker column: the Criteria Combiner
  reads tables whose cutoffs are numbers.
\<close>

record 'c cutoff_row =
  co_biomarker :: string
  cutoff :: 'c
  sensitivity :: rat
  specificity :: rat
  youden_index :: rat
  response_rate_above :: rat
  response_rate_below :: rat
  n_above :: nat
  n_below :: nat

type_synonym cutoff_result = "rat cutoff_row"

section \<open>Criteria Combiner (criteria\_generator.py)\<close>

record impact =
  response_rate_unenriched :: pyfloat
  response_rate_enriched :: pyfloat
  eligible_fraction :: pyfloat
  enrichment_factor :: pyfloat
  number_needed_to_screen :: pyfloat
  n_eligible :: nat
  n_total :: nat

record EnrichmentCriteria = impact +
  criteria :: "string list"
  biomarkers_used :: "string list"
  cutoffs :: "(string \<times> rat) list"

text \<open>
  The loop of \<open>_calculate_combined_impact\<close> over \<open>cutoffs.items()\<close>: a criterion whose
  biomarker is not a column of the data is passed over; otherwise its mask is ANDed into
  the eligibility mask.  A Python dictionary keeps insertion order, so \<open>cutoffs\<close> is an
  association list.
\<close>

fun apply_criteria :: "dataset \<Rightarrow> (string \<times> rat) list \<Rightarrow> bool list \<Rightarrow> error + bool list" where
  "apply_criteria d [] eligible_mask = Inr eligible_mask"
| "apply_criteria d ((biomarker, c) # rest) eligible_mask =
     (case map_of (columns d) biomarker of
        None \<Rightarrow> apply_criteria d rest eligible_mask
      | Some col \<Rightarrow>
          (case col_ge col c of
             Inl e \<Rightarrow> Inl e
           | Inr biomarker_mask \<Rightarrow> apply_criteria d rest (mask_and eligible_mask biomarker_mask)))"

definition valid_outcome_mask :: "dataset \<Rightarrow> bool list" where
  "valid_outcome_mask d = map (\<lambda>y. y \<noteq> None) (outcome d)"

text \<open>The eligibility mask after the criteria and the removal of missing outcomes.\<close>

definition eligible_mask_of :: "dataset \<Rightarrow> (string \<times> rat) list \<Rightarrow> error + bool list" where
  "eligible_mask_of d cs =
     (case apply_criteria d cs (replicate (n_rows d) True) of
        Inl e \<Rightarrow> Inl e
      | Inr m \<Rightarrow> Inr (mask_and m (valid_outcome_mask d)))"

definition calculate_combined_impact :: "dataset \<Rightarrow> (string \<times> rat) list \<Rightarrow> error + impact" where
  "calculate_combined_impact d cs =
     (case eligible_mask_of d cs of
        Inl e \<Rightarrow> Inl e
      | Inr eligible_mask \<Rightarrow>
          (let nt = mask_sum (valid_outcome_mask d);
               ne = mask_sum eligible_mask;
               ef = (if 0 < nt then Fin (of_nat ne / of_nat nt) else Fin 0);
               rru = fl_mean (masked_values (valid_outcome_mask d) (outcome d));
               rre = (if 0 < ne then fl_mean (masked_values eligible_mask (outcome d)) else Fin 0);
               factor = (if fl_less (Fin 0) rru then fl_div rre rru else Fin 1);
               nns = (if fl_less (Fin 0) ef then fl_div (Fin 1) ef else PInf)
           in Inr \<lparr> response_rate_unenriched = rru,
                    response_rate_enriched = rre,
                    eligible_fraction = ef,
                    enrichment_factor = factor,
                    number_needed_to_screen = nns,
                    n_eligible = ne,
                    n_total = nt \<rparr>))"

text \<open>
  \<open>cutoff_results[cutoff_results["biomarker"] == biomarker]\<close>: the rows of the cutoff
  table for one biomarker; \<open>KeyError\<close> on a frame without columns.
\<close>

fun cutoff_rows_for :: "cutoff_result frame \<Rightarrow> string \<Rightarrow> error + cutoff_result list" where
  "cutoff_rows_for NoColumns biomarker = Inl (KeyError ''biomarker'')"
| "cutoff_rows_for (Frame cs) biomarker = Inr (filter (\<lambda>c. co_biomarker c = biomarker) cs)"

text \<open>
  The loop of \<open>generate_criteria\<close> over the rows of \<open>top_biomarkers\<close>, threading the three
  accumulators \<open>criteria_list\<close>, \<open>biomarkers_used\<close> and \<open>cutoffs_dict\<close>.  Assigning to a key
  of a dictionary replaces the value in place or appends the key, which is what
  \<open>AList.update\<close> does.  The rendering of a criterion as text (\<open>_format_criterion\<close>)
  enters no metric and is the parameter \<open>fmt\<close>.
\<close>

fun build_criteria ::
  "(string \<Rightarrow> rat \<Rightarrow> string) \<Rightarrow> cutoff_result frame \<Rightarrow> biomarker_result list \<Rightarrow>
   string list \<times> string list \<times> (string \<times> rat) list \<Rightarrow>
   error + string list \<times> string list \<times> (string \<times> rat) list" where
  "build_criteria fmt cutoff_results [] acc = Inr acc"
| "build_criteria fmt cutoff_results (row # rows) (criteria_list, used, cutoffs_dict) =
     (case cutoff_rows_for cutoff_results (br_biomarker row) of
        Inl e \<Rightarrow> Inl e
      | Inr [] \<Rightarrow> build_criteria fmt cutoff_results rows (criteria_list, used, cutoffs_dict)
      | Inr (cutoff_row # _) \<Rightarrow>
          build_criteria fmt cutoff_results rows
            (criteria_list @ [fmt (br_biomarker row) (cutoff cutoff_row)],
             used @ [br_biomarker row],
             AList.update (br_biomarker row) (cutoff cutoff_row) cutoffs_dict))"

definition make_criteria ::
  "impact \<Rightarrow> string list \<Rightarrow> string list \<Rightarrow> (string \<times> rat) list \<Rightarrow> EnrichmentCriteria" where
  "make_criteria i criteria_list used cutoffs_dict =
     impact.extend i (EnrichmentCriteria.fields criteria_list used cutoffs_dict)"

definition generate_criteria ::
  "dataset \<Rightarrow> (string \<Rightarrow> rat \<Rightarrow> string) \<Rightarrow> biomarker_result frame \<Rightarrow> cutoff_result frame \<Rightarrow>
   int \<Rightarrow> pyfloat \<Rightarrow> error + EnrichmentCriteria" where
  "generate_criteria d fmt biomarker_results cutoff_results max_criteria min_eligible_fraction =
     (if df_empty biomarker_results then Inl (ValueError ''No significant biomarkers found'')
      else
        (case build_criteria fmt cutoff_results
                (head_rows max_criteria (frame_rows biomarker_results)) ([], [], []) of
           Inl e \<Rightarrow> Inl e
         | Inr (criteria_list, used, cutoffs_dict) \<Rightarrow>
             (case calculate_combined_impact d cutoffs_dict of
                Inl e \<Rightarrow> Inl e
              | Inr i \<Rightarrow>
                  if fl_less (eligible_fraction i) min_eligible_fraction \<and> 1 < length cutoffs_dict
                  then
                    (case calculate_combined_impact d (take 1 cutoffs_dict) of
                       Inl e \<Rightarrow> Inl e
                     | Inr i' \<Rightarrow>
                         Inr (make_criteria i' (take 1 criteria_list) (take 1 used)
                                (take 1 cutoffs_dict)))
                  else Inr (make_criteria i criteria_list used cutoffs_dict))))"

section \<open>Signal Estimator (biomarker\_analysis.py)\<close>

text \<open>
  \<open>self.data[biomarker].notna() & self.data[self.outcome_col].notna()\<close>: the patients
  with both the biomarker and the outcome present.
\<close>

definition valid_idx :: "dataset \<Rightarrow> column \<Rightarrow> bool list" where
  "valid_idx d col = mask_and (notna col) (valid_outcome_mask d)"

text \<open>The complete cells of a column under a mask, as the regression receives them.\<close>

datatype xvalues = NumX "rat list" | CatX "string list"

text \<open>One such cell: a number, or a label.\<close>

datatype xvalue = NumV rat | CatV string

fun col_values :: "bool list \<Rightarrow> column \<Rightarrow> xvalues" where
  "col_values m (NumCol vs) = NumX (masked_values m vs)"
| "col_values m (CatCol ls) = CatX (masked_values m ls)"

text \<open>
  \<open>_analyze_single_biomarker\<close>.  What follows the sample-size check (the indicator
  encoding of labels, the regression of scikit-learn, the Wald test and the AUC) is the
  parameter \<open>estimate\<close>, a function of the complete pairs that may raise, may decline
  (\<open>None\<close>, a single category) or gives the statistics; the result carries the biomarker's
  name.
\<close>

definition analyze_single_biomarker ::
  "dataset \<Rightarrow> (xvalues \<Rightarrow> rat list \<Rightarrow> error + biomarker_result option) \<Rightarrow> string \<Rightarrow>
   error + biomarker_result option" where
  "analyze_single_biomarker d estimate biomarker =
     (case map_of (columns d) biomarker of
        None \<Rightarrow> Inl (KeyError biomarker)
      | Some col \<Rightarrow>
          if mask_sum (valid_idx d col) < 20 then Inr None
          else
            (case estimate (col_values (valid_idx d col) col)
                    (masked_values (valid_idx d col) (outcome d)) of
               Inl e \<Rightarrow> Inl e
             | Inr None \<Rightarrow> Inr None
             | Inr (Some r) \<Rightarrow> Inr (Some (r\<lparr>br_biomarker := biomarker\<rparr>))))"

text \<open>
  The loop of \<open>analyze_biomarkers\<close>: a biomarker whose analysis raises, or returns
  \<open>None\<close>, adds nothing to \<open>self.results\<close>.
\<close>

fun analyze_results ::
  "dataset \<Rightarrow> (xvalues \<Rightarrow> rat list \<Rightarrow> error + biomarker_result option) \<Rightarrow> string list \<Rightarrow>
   biomarker_result list" where
  "analyze_results d estimate [] = []"
| "analyze_results d estimate (biomarker # rest) =
     (case analyze_single_biomarker d estimate biomarker of
        Inr (Some result) \<Rightarrow> result # analyze_results d estimate rest
      | _ \<Rightarrow> analyze_results d estimate rest)"

text \<open>
  \<open>sort_values(["p_value", "AUC"], ascending=[True, False])\<close> is a stable sort on the
  pair of keys, here the insertion sort of the library on the lexicographic order.
\<close>

definition analyze_biomarkers ::
  "dataset \<Rightarrow> (xvalues \<Rightarrow> rat list \<Rightarrow> error + biomarker_result option) \<Rightarrow> string list \<Rightarrow>
   pyfloat \<Rightarrow> int \<Rightarrow> biomarker_result frame" where
  "analyze_biomarkers d estimate biomarker_list min_auc top_n =
     (let results_df = DataFrame (analyze_results d estimate biomarker_list)
      in if df_empty results_df then results_df
         else Frame (head_rows top_n
                (filter (\<lambda>r. fl_le min_auc (Fin (br_AUC r)))
                   (sort_key (\<lambda>r. (br_p_value r, - br_AUC r)) (frame_rows results_df)))))"

section \<open>Threshold Optimizer (cutoff\_optimizer.py)\<close>

text \<open>
  The three arrays \<open>fpr\<close>, \<open>tpr\<close>, \<open>thresholds\<close> of \<open>roc_curve\<close> have one entry per
  evaluated threshold; the curve is the list of these triples.  The rates are the floats
  scikit-learn computed from the counts; the first threshold of scikit-learn is infinite.
\<close>

record roc_point =
  fpr :: rat
  tpr :: rat
  threshold :: pyfloat

text \<open>
  \<open>np.argmax\<close>: the first index of the largest entry, the first \<open>NaN\<close> if there is one;
  it raises on an empty array.  \<open>np.argmin\<close> likewise.
\<close>

fun argmax_from :: "pyfloat list \<Rightarrow> nat \<Rightarrow> nat \<Rightarrow> pyfloat \<Rightarrow> nat" where
  "argmax_from [] i best_i best = best_i"
| "argmax_from (x # xs) i best_i best =
     (if best \<noteq> NaN \<and> (x = NaN \<or> fl_less best x) then argmax_from xs (Suc i) i x
      else argmax_from xs (Suc i) best_i best)"

definition np_argmax :: "pyfloat list \<Rightarrow> error + nat" where
  "np_argmax xs =
     (case xs of
        [] \<Rightarrow> Inl (ValueError ''attempt to get argmax of an empty sequence'')
      | x # rest \<Rightarrow> Inr (argmax_from rest 1 0 x))"

fun argmin_from :: "pyfloat list \<Rightarrow> nat \<Rightarrow> nat \<Rightarrow> pyfloat \<Rightarrow> nat" where
  "argmin_from [] i best_i best = best_i"
| "argmin_from (x # xs) i best_i best =
     (if best \<noteq> NaN \<and> (x = NaN \<or> fl_less x best) then argmin_from xs (Suc i) i x
      else argmin_from xs (Suc i) best_i best)"

definition np_argmin :: "pyfloat list \<Rightarrow> error + nat" where
  "np_argmin xs =
     (case xs of
        [] \<Rightarrow> Inl (ValueError ''attempt to get argmin of an empty sequence'')
      | x # rest \<Rightarrow> Inr (argmin_from rest 1 0 x))"

text \<open>\<open>np.abs(p - target)\<close> for a finite \<open>p\<close>: a float64 subtraction.\<close>

fun fl_absdiff :: "rat \<Rightarrow> pyfloat \<Rightarrow> pyfloat" where
  "fl_absdiff p (Fin t) = Fin \<bar>f64_sub p t\<bar>"
| "fl_absdiff p PInf = PInf"
| "fl_absdiff p NInf = PInf"
| "fl_absdiff p NaN = NaN"

text \<open>
  \<open>_map_threshold_to_biomarker_value\<close> returns the cell of the biomarker array at the
  index found: a number for a numeric column, a label for a column of labels.
\<close>

definition map_threshold_to_biomarker_value :: "'a list \<Rightarrow> rat list \<Rightarrow> pyfloat \<Rightarrow> error + 'a" where
  "map_threshold_to_biomarker_value biomarker_values predicted_probas target_proba =
     (case np_argmin (map (\<lambda>p. fl_absdiff p target_proba) predicted_probas) of
        Inl e \<Rightarrow> Inl e
      | Inr closest_idx \<Rightarrow>
          if closest_idx < length biomarker_values then Inr (biomarker_values ! closest_idx)
          else Inl (IndexError ''index out of bounds''))"

text \<open>
  The choice of \<open>optimal_idx\<close> in the branch \<open>method == "youden"\<close>: the argmax of the
  float array \<open>tpr - fpr\<close>, replaced, when a constraint is given and some threshold passes
  the tests \<open>tpr >= min_sensitivity\<close> and \<open>(1 - fpr) >= min_specificity\<close> on the floats,
  by the argmax of the array in which the other thresholds are set to \<open>-inf\<close>.
\<close>

definition youden_values :: "roc_point list \<Rightarrow> rat list" where
  "youden_values roc = map (\<lambda>p. f64_sub (tpr p) (fpr p)) roc"

definition constraint_mask :: "roc_point list \<Rightarrow> rat option \<Rightarrow> rat option \<Rightarrow> bool list" where
  "constraint_mask roc min_sensitivity min_specificity =
     map (\<lambda>p. (case min_sensitivity of None \<Rightarrow> True | Some s \<Rightarrow> s \<le> tpr p) \<and>
              (case min_specificity of None \<Rightarrow> True | Some s \<Rightarrow> s \<le> f64_sub 1 (fpr p))) roc"

definition youden_optimal_idx :: "roc_point list \<Rightarrow> rat option \<Rightarrow> rat option \<Rightarrow> error + nat" where
  "youden_optimal_idx roc min_sensitivity min_specificity =
     (case np_argmax (map Fin (youden_values roc)) of
        Inl e \<Rightarrow> Inl e
      | Inr optimal_idx \<Rightarrow>
          if min_sensitivity \<noteq> None \<or> min_specificity \<noteq> None then
            (let valid_mask = constraint_mask roc min_sensitivity min_specificity
             in if 0 < mask_sum valid_mask
                then np_argmax (map (\<lambda>(y, ok). if ok then Fin y else NInf)
                                  (zip (youden_values roc) valid_mask))
                else Inr optimal_idx)
          else Inr optimal_idx)"

text \<open>
  The first part of \<open>optimize_cutoff\<close>: the sample-size check, the regression and the
  ROC curve.  \<open>fit_predict\<close> (the fitted probabilities of scikit-learn's logistic
  regression) and \<open>roc_curve\<close> are parameters, and both may raise.  The regression
  receives the complete cells of the column, numbers or labels; whether it converts the
  labels to numbers or raises is its own matter.
\<close>

definition insufficient_data :: "string \<Rightarrow> error" where
  "insufficient_data biomarker =
     ValueError (''Insufficient data for biomarker '' @ [CHR 0x27] @ biomarker @ [CHR 0x27])"

definition fit_roc ::
  "dataset \<Rightarrow> (xvalues \<Rightarrow> rat list \<Rightarrow> error + rat list) \<Rightarrow>
   (rat list \<Rightarrow> rat list \<Rightarrow> error + roc_point list) \<Rightarrow> string \<Rightarrow>
   error + xvalues \<times> rat list \<times> rat list \<times> roc_point list" where
  "fit_roc d fit_predict roc_curve biomarker =
     (case map_of (columns d) biomarker of
        None \<Rightarrow> Inl (KeyError biomarker)
      | Some col \<Rightarrow>
          if mask_sum (valid_idx d col) < 20 then Inl (insufficient_data biomarker)
          else
            (let X = col_values (valid_idx d col) col;
                 y = masked_values (valid_idx d col) (outcome d)
             in case fit_predict X y of
                  Inl e \<Rightarrow> Inl e
                | Inr y_pred_proba \<Rightarrow>
                    (case roc_curve y y_pred_proba of
                       Inl e \<Rightarrow> Inl e
                     | Inr roc \<Rightarrow> Inr (X, y, y_pred_proba, roc))))"

text \<open>\<open>y[mask]\<close> for arrays without missing values.\<close>

definition select_by_mask :: "bool list \<Rightarrow> 'a list \<Rightarrow> 'a list" where
  "select_by_mask m xs = map snd (filter fst (zip m xs))"

definition rate_of :: "bool list \<Rightarrow> rat list \<Rightarrow> rat" where
  "rate_of m y =
     (if 0 < mask_sum m
      then sum_list (select_by_mask m y) / of_nat (length (select_by_mask m y)) else 0)"

text \<open>
  The branch \<open>method == "youden"\<close> and the lines after it, for the cells \<open>X\<close> of the column:
  numbers compared as numbers, labels compared as Python compares strings, by code point.
  \<open>as_value\<close> tells which of the two the returned cutoff is.
\<close>

definition youden_cutoff ::
  "string \<Rightarrow> ('a :: linorder) list \<Rightarrow> ('a \<Rightarrow> xvalue) \<Rightarrow> rat list \<Rightarrow> rat list \<Rightarrow>
   roc_point list \<Rightarrow> rat option \<Rightarrow> rat option \<Rightarrow> error + xvalue cutoff_row" where
  "youden_cutoff biomarker X as_value y y_pred_proba roc min_sensitivity min_specificity =
     (case youden_optimal_idx roc min_sensitivity min_specificity of
        Inl e \<Rightarrow> Inl e
      | Inr optimal_idx \<Rightarrow>
          (case map_threshold_to_biomarker_value X y_pred_proba
                  (threshold (roc ! optimal_idx)) of
             Inl e \<Rightarrow> Inl e
           | Inr optimal_cutoff \<Rightarrow>
               (let above_cutoff = map (\<lambda>x. optimal_cutoff \<le> x) X;
                    below_cutoff = map (\<lambda>x. x < optimal_cutoff) X
                in Inr \<lparr> co_biomarker = biomarker,
                         cutoff = as_value optimal_cutoff,
                         sensitivity = tpr (roc ! optimal_idx),
                         specificity = f64_sub 1 (fpr (roc ! optimal_idx)),
                         youden_index = youden_values roc ! optimal_idx,
                         response_rate_above = rate_of above_cutoff y,
                         response_rate_below = rate_of below_cutoff y,
                         n_above = mask_sum above_cutoff,
                         n_below = mask_sum below_cutoff \<rparr>)))"

definition optimize_cutoff ::
  "dataset \<Rightarrow> (xvalues \<Rightarrow> rat list \<Rightarrow> error + rat list) \<Rightarrow>
   (rat list \<Rightarrow> rat list \<Rightarrow> error + roc_point list) \<Rightarrow> string \<Rightarrow> string \<Rightarrow>
   rat option \<Rightarrow> rat option \<Rightarrow> error + xvalue cutoff_row" where
  "optimize_cutoff d fit_predict roc_curve biomarker method min_sensitivity min_specificity =
     (case fit_roc d fit_predict roc_curve biomarker of
        Inl e \<Rightarrow> Inl e
      | Inr (X, y, y_pred_proba, roc) \<Rightarrow>
          if method = ''youden'' then
            (case X of
               NumX xs \<Rightarrow>
                 youden_cutoff biomarker xs NumV y y_pred_proba roc
                   min_sensitivity min_specificity
             | CatX ls \<Rightarrow>
                 youden_cutoff biomarker ls CatV y y_pred_proba roc
                   min_sensitivity min_specificity)
          else Inl (ValueError (''Unsupported optimization method: '' @ method)))"

text \<open>
  The loop of \<open>optimize_multiple_cutoffs\<close>: a biomarker whose optimization raises is
  skipped, and the loop goes on.  The batch passes no constraint.
\<close>

fun cutoff_results_of ::
  "dataset \<Rightarrow> (xvalues \<Rightarrow> rat list \<Rightarrow> error + rat list) \<Rightarrow>
   (rat list \<Rightarrow> rat list \<Rightarrow> error + roc_point list) \<Rightarrow> string list \<Rightarrow> string \<Rightarrow>
   xvalue cutoff_row list" where
  "cutoff_results_of d fit_predict roc_curve [] method = []"
| "cutoff_results_of d fit_predict roc_curve (biomarker # rest) method =
     (case optimize_cutoff d fit_predict roc_curve biomarker method None None of
        Inr result \<Rightarrow> result # cutoff_results_of d fit_predict roc_curve rest method
      | Inl e \<Rightarrow> cutoff_results_of d fit_predict roc_curve rest method)"

definition optimize_multiple_cutoffs ::
  "dataset \<Rightarrow> (xvalues \<Rightarrow> rat list \<Rightarrow> error + rat list) \<Rightarrow>
   (rat list \<Rightarrow> rat list \<Rightarrow> error + roc_point list) \<Rightarrow> string list \<Rightarrow> string \<Rightarrow>
   xvalue cutoff_row frame" where
  "optimize_multiple_cutoffs d fit_predict roc_curve biomarker_list method =
     DataFrame (cutoff_results_of d fit_predict roc_curve biomarker_list method)"

section \<open>Notions used in the statements\<close>

text \<open>
  What one criterion of the loop of \<open>_calculate_combined_impact\<close> asks of the patient at
  index \<open>i\<close>: nothing when the biomarker is not a column of the data, and otherwise that
  the patient's value is present and at least the cutoff.
\<close>

definition satisfies :: "dataset \<Rightarrow> nat \<Rightarrow> string \<Rightarrow> rat \<Rightarrow> bool" where
  "satisfies d i biomarker c =
     (case map_of (columns d) biomarker of
        None \<Rightarrow> True
      | Some (NumCol vs) \<Rightarrow> (case vs ! i of None \<Rightarrow> False | Some x \<Rightarrow> c \<le> x)
      | Some (CatCol ls) \<Rightarrow> False)"

text \<open>The patients with an outcome who meet every criterion of a cutoff dictionary.\<close>

definition eligible_patients :: "dataset \<Rightarrow> (string \<times> rat) list \<Rightarrow> nat set" where
  "eligible_patients d cs =
     {i. i < n_rows d \<and> outcome d ! i \<noteq> None \<and> (\<forall>(b, c) \<in> set cs. satisfies d i b c)}"

text \<open>
  \<open>cutoff_row.iloc[0]["cutoff"]\<close>: the cutoff of the first row of the cutoff table for a
  biomarker, if there is one.
\<close>

definition first_cutoff :: "cutoff_result list \<Rightarrow> string \<Rightarrow> rat option" where
  "first_cutoff cs biomarker =
     (case filter (\<lambda>c. co_biomarker c = biomarker) cs of
        [] \<Rightarrow> None
      | cutoff_row # _ \<Rightarrow> Some (cutoff cutoff_row))"

text \<open>
  The list \<open>biomarkers_used\<close> as the loop of \<open>generate_criteria\<close> leaves it, before the
  backoff.
\<close>

definition selected_biomarkers ::
  "(string \<Rightarrow> rat \<Rightarrow> string) \<Rightarrow> cutoff_result frame \<Rightarrow> int \<Rightarrow> biomarker_result frame \<Rightarrow>
   error + string list" where
  "selected_biomarkers fmt cutoff_results max_criteria biomarker_results =
     (case build_criteria fmt cutoff_results
             (head_rows max_criteria (frame_rows biomarker_results)) ([], [], []) of
        Inl e \<Rightarrow> Inl e
      | Inr (criteria_list, used, cutoffs_dict) \<Rightarrow> Inr used)"

text \<open>
  The selection as the specification words it, for comparison with the code: the first
  \<open>max_criteria\<close> entries of the ranked table that have a matching cutoff entry.
\<close>

definition spec_selected_biomarkers :: "cutoff_result list \<Rightarrow> int \<Rightarrow> biomarker_result list \<Rightarrow> string list" where
  "spec_selected_biomarkers cs max_criteria rs =
     take (nat max_criteria) (filter (\<lambda>b. first_cutoff cs b \<noteq> None) (map br_biomarker rs))"

text \<open>
  The order in which \<open>np.argmax\<close> compares values that are not NaN: \<open>-inf\<close> below every
  finite value, \<open>+inf\<close> above.
\<close>

fun fl_key :: "pyfloat \<Rightarrow> nat \<times> rat" where
  "fl_key NInf = (0, 0)"
| "fl_key (Fin r) = (1, r)"
| "fl_key PInf = (2, 0)"
| "fl_key NaN = (3, 0)"

text \<open>
  Index \<open>b\<close> holds the first maximum of the first \<open>n\<close> entries of \<open>ys\<close>: no entry is
  larger, and every entry before \<open>b\<close> is strictly smaller.
\<close>

definition first_max :: "pyfloat list \<Rightarrow> nat \<Rightarrow> nat \<Rightarrow> bool" where
  "first_max ys n b \<longleftrightarrow>
     b < n \<and> (\<forall>j<n. fl_key (ys ! j) \<le> fl_key (ys ! b)) \<and> (\<forall>j<b. fl_key (ys ! j) < fl_key (ys ! b))"

text \<open>
  The Youden value the code computes for an evaluated threshold, the float \<open>tpr - fpr\<close>,
  and the tests the code makes of an evaluated threshold under the caller's constraints,
  each for the constraint that is supplied: \<open>tpr >= min_sensitivity\<close>, and
  \<open>(1 - fpr) >= min_specificity\<close> on the float \<open>1 - fpr\<close>.
\<close>

definition youden :: "roc_point \<Rightarrow> rat" where
  "youden p = f64_sub (tpr p) (fpr p)"

definition meets :: "rat option \<Rightarrow> rat option \<Rightarrow> roc_point \<Rightarrow> bool" where
  "meets min_sensitivity min_specificity p \<longleftrightarrow>
     (case min_sensitivity of None \<Rightarrow> True | Some s \<Rightarrow> s \<le> tpr p) \<and>
     (case min_specificity of None \<Rightarrow> True | Some s \<Rightarrow> s \<le> f64_sub 1 (fpr p))"


section \<open>Example inputs\<close>

text \<open>
  A table of four patients with two numeric biomarkers; the third patient has no value
  for \<open>a\<close>, the fourth no outcome.
\<close>

definition ex_data :: dataset where
  "ex_data = \<lparr> n_rows = 4,
      columns = [(''a'', NumCol [Some 1, Some 5, None, Some 7]),
                 (''b'', NumCol [Some 2, Some 0, Some 3, Some 9])],
      outcome = [Some 1, Some 0, Some 1, None] \<rparr>"

text \<open>The same patients, none of whom responded.\<close>

definition ex_data_no_response :: dataset where
  "ex_data_no_response = ex_data \<lparr> outcome := [Some 0, Some 0, Some 0, None] \<rparr>"

definition ex_row :: "string \<Rightarrow> biomarker_result" where
  "ex_row b = \<lparr> br_biomarker = b, br_OR = 2, br_CI_lower = 1, br_CI_upper = 3,
       br_p_value = 1 / 100, br_AUC = 7 / 10, br_coefficient = 1 / 2 \<rparr>"

definition ex_cut :: "string \<Rightarrow> rat \<Rightarrow> cutoff_result" where
  "ex_cut b c = \<lparr> co_biomarker = b, cutoff = c, sensitivity = 1, specificity = 1,
       youden_index = 1, response_rate_above = 1, response_rate_below = 0,
       n_above = 1, n_below = 1 \<rparr>"

definition ex_fmt :: "string \<Rightarrow> rat \<Rightarrow> string" where
  "ex_fmt b c = b"

definition ex_ranked :: "biomarker_result frame" where
  "ex_ranked = Frame [ex_row ''a'', ex_row ''b'']"

definition ex_cutoffs :: "cutoff_result frame" where
  "ex_cutoffs = Frame [ex_cut ''a'' 2, ex_cut ''b'' 1]"

text \<open>A ranked table whose first biomarker has no cutoff in \<open>ex_cutoffs\<close>.\<close>

definition ex_ranked3 :: "biomarker_result frame" where
  "ex_ranked3 = Frame [ex_row ''x'', ex_row ''a'', ex_row ''b'']"

text \<open>The same patients with every outcome missing.\<close>

definition ex_data_no_outcome :: dataset where
  "ex_data_no_outcome = ex_data \<lparr> outcome := [None, None, None, None] \<rparr>"

text \<open>
  A trial of twenty patients, all responders but the first three and the twelfth.
  Biomarker \<open>m\<close> is numeric and complete, \<open>g\<close> is a label column, \<open>s\<close> has a value for five
  patients only.
\<close>

definition ex_trial :: dataset where
  "ex_trial = \<lparr> n_rows = 20,
      columns =
        [(''m'', NumCol (map (\<lambda>k. Some (rat_of_nat k * 5)) [1..<21])),
         (''g'', CatCol (map (\<lambda>k. Some (if even k then ''x'' else ''y'')) [1..<21])),
         (''s'', NumCol (map (\<lambda>k. if k < 6 then Some (rat_of_nat k) else None) [1..<21]))],
      outcome = map (\<lambda>k. Some (if k < 4 \<or> k = 12 then 0 else 1)) [1..<21] \<rparr>"

text \<open>
  Stand-ins for the library parts: an estimator that reports an AUC of 0.7 for a numeric
  biomarker and 0.5 for a label column, a model whose predicted probability is the
  biomarker value over 100 and which cannot convert labels, and the ROC curve of biomarker \<open>m\<close> under that model: the
  origin, then the corners of the curve at the scores of patients 20, 13, 12, 4 and 1,
  with the collinear points between them dropped.
\<close>

definition ex_estimate :: "xvalues \<Rightarrow> rat list \<Rightarrow> error + biomarker_result option" where
  "ex_estimate X y =
     Inr (Some \<lparr> br_biomarker = [], br_OR = 2, br_CI_lower = 1, br_CI_upper = 3,
                 br_p_value = 1 / 100,
                 br_AUC = (case X of NumX xs \<Rightarrow> 7 / 10 | CatX ls \<Rightarrow> 1 / 2),
                 br_coefficient = 1 / 2 \<rparr>)"

definition ex_fit_predict :: "xvalues \<Rightarrow> rat list \<Rightarrow> error + rat list" where
  "ex_fit_predict X y =
     (case X of
        NumX xs \<Rightarrow> Inr (map (\<lambda>x. x / 100) xs)
      | CatX ls \<Rightarrow>
          Inl (ValueError (''could not convert string to float: '' @ [CHR 0x27] @ hd ls
                            @ [CHR 0x27])))"

definition ex_roc :: "roc_point list" where
  "ex_roc = [\<lparr> fpr = 0, tpr = 0, threshold = PInf \<rparr>,
             \<lparr> fpr = 0, tpr = 1 / 16, threshold = Fin 1 \<rparr>,
             \<lparr> fpr = 0, tpr = 1 / 2, threshold = Fin (13 / 20) \<rparr>,
             \<lparr> fpr = 1 / 4, tpr = 1 / 2, threshold = Fin (3 / 5) \<rparr>,
             \<lparr> fpr = 1 / 4, tpr = 1, threshold = Fin (1 / 5) \<rparr>,
             \<lparr> fpr = 1, tpr = 1, threshold = Fin (1 / 20) \<rparr>]"

definition ex_roc_curve :: "rat list \<Rightarrow> rat list \<Rightarrow> error + roc_point list" where
  "ex_roc_curve y p = Inr ex_roc"

text \<open>
  The Cutoff Results of biomarker \<open>m\<close> on this trial: without constraints, and with a
  minimum specificity of 0.875.
\<close>

definition ex_result_m :: "xvalue cutoff_row" where
  "ex_result_m = \<lparr> co_biomarker = ''m'', cutoff = NumV 20, sensitivity = 1, specificity = 3 / 4,
      youden_index = 3 / 4, response_rate_above = 16 / 17, response_rate_below = 0,
      n_above = 17, n_below = 3 \<rparr>"


text \<open>
  A second trial of twenty patients, with the biomarker values 1 to 20, all responders but
  patients 1, 3, 4, 5 and 6, its ROC curve under the same model, whose rates are the floats
  of 1/15, 14/15 and 4/5, and the Cutoff Result of the unconstrained call.
\<close>

definition ex_boundary :: dataset where
  "ex_boundary = \<lparr> n_rows = 20,
      columns = [(''m'', NumCol (map (\<lambda>k. Some (rat_of_nat k)) [1..<21]))],
      outcome = map (\<lambda>k. Some (if k = 1 \<or> (3 \<le> k \<and> k \<le> 6) then 0 else 1)) [1..<21] \<rparr>"

definition ex_boundary_roc :: "roc_point list" where
  "ex_boundary_roc =
     [\<lparr> fpr = 0, tpr = 0, threshold = PInf \<rparr>,
      \<lparr> fpr = 0, tpr = f64_round (1 / 15), threshold = Fin (20 / 100) \<rparr>,
      \<lparr> fpr = 0, tpr = f64_round (14 / 15), threshold = Fin (7 / 100) \<rparr>,
      \<lparr> fpr = f64_round (4 / 5), tpr = f64_round (14 / 15), threshold = Fin (3 / 100) \<rparr>,
      \<lparr> fpr = f64_round (4 / 5), tpr = 1, threshold = Fin (2 / 100) \<rparr>,
      \<lparr> fpr = 1, tpr = 1, threshold = Fin (1 / 100) \<rparr>]"

definition ex_boundary_roc_curve :: "rat list \<Rightarrow> rat list \<Rightarrow> error + roc_point list" where
  "ex_boundary_roc_curve y p = Inr ex_boundary_roc"


text \<open>
  The second trial with the biomarker recorded as the decimal labels of 1 to 20, and a
  model that converts the labels to numbers, as scikit-learn does with a column of numeric
  strings.
\<close>

definition label_of :: "nat \<Rightarrow> string" where
  "label_of k =
     (if k < 10 then [char_of (48 + k)] else [char_of (48 + k div 10), char_of (48 + k mod 10)])"

definition ex_labels :: dataset where
  "ex_labels = \<lparr> n_rows = 20,
      columns = [(''c'', CatCol (map (\<lambda>k. Some (label_of k)) [1..<21]))],
      outcome = outcome ex_boundary \<rparr>"

definition label_number :: "string \<Rightarrow> rat" where
  "label_number l = of_nat (foldl (\<lambda>n c. 10 * n + (of_char c - 48)) 0 l)"

definition ex_fit_labels :: "xvalues \<Rightarrow> rat list \<Rightarrow> error + rat list" where
  "ex_fit_labels X y =
     (case X of
        NumX xs \<Rightarrow> Inr (map (\<lambda>x. x / 100) xs)
      | CatX ls \<Rightarrow> Inr (map (\<lambda>l. label_number l / 100) ls))"

section \<open>Properties of the Criteria Combiner\<close>

lemma make_criteria_sel [simp]:
  "eligible_fraction (make_criteria i a b c) = eligible_fraction i"
  "n_total (make_criteria i a b c) = n_total i"
  "n_eligible (make_criteria i a b c) = n_eligible i"
  "response_rate_unenriched (make_criteria i a b c) = response_rate_unenriched i"
  "response_rate_enriched (make_criteria i a b c) = response_rate_enriched i"
  "enrichment_factor (make_criteria i a b c) = enrichment_factor i"
  "number_needed_to_screen (make_criteria i a b c) = number_needed_to_screen i"
  "criteria (make_criteria i a b c) = a"
  "biomarkers_used (make_criteria i a b c) = b"
  "cutoffs (make_criteria i a b c) = c"
  by (simp_all add: make_criteria_def impact.defs EnrichmentCriteria.defs)

lemma impact_arith:
  assumes "calculate_combined_impact d cs = Inr i"
  shows "eligible_fraction i =
           (if n_total i = 0 then Fin 0 else Fin (of_nat (n_eligible i) / of_nat (n_total i)))"
    and "enrichment_factor i =
           (if fl_less (Fin 0) (response_rate_unenriched i)
            then fl_div (response_rate_enriched i) (response_rate_unenriched i) else Fin 1)"
    and "number_needed_to_screen i =
           (if fl_less (Fin 0) (eligible_fraction i)
            then fl_div (Fin 1) (eligible_fraction i) else PInf)"
    and "n_eligible i = 0 \<Longrightarrow> response_rate_enriched i = Fin 0"
  using assms
  by (auto simp: calculate_combined_impact_def Let_def split: sum.splits)

text \<open>
  What \<open>generate_criteria\<close> returns is the impact of the cutoffs it returns, computed by
  \<open>_calculate_combined_impact\<close>.
\<close>

lemma generate_criteria_impact:
  assumes "generate_criteria d fmt br cr mc mf = Inr ec"
  shows "\<exists>i. calculate_combined_impact d (cutoffs ec) = Inr i \<and>
             ec = make_criteria i (criteria ec) (biomarkers_used ec) (cutoffs ec)"
  using assms
  by (auto simp: generate_criteria_def split: if_splits sum.splits prod.splits)

text \<open>
  Claim C4.  For every Enrichment Criteria returned by \<open>generate_criteria\<close>: the eligible
  fraction is \<open>n_eligible / n_total\<close>, and 0 when \<open>n_total\<close> is 0; the enrichment factor is
  the ratio of the enriched and the unenriched response rates when the latter is
  positive, and 1 when it is 0; the number needed to screen is the inverse of the
  eligible fraction when that is positive, and infinite when it is 0; the enriched
  response rate is 0 when nobody is eligible.
\<close>

theorem enrichment_arithmetic:
  assumes "generate_criteria d fmt br cr mc mf = Inr ec"
  shows "eligible_fraction ec =
           (if n_total ec = 0 then Fin 0 else Fin (of_nat (n_eligible ec) / of_nat (n_total ec)))
       \<and> (fl_less (Fin 0) (response_rate_unenriched ec) \<longrightarrow>
            enrichment_factor ec =
              fl_div (response_rate_enriched ec) (response_rate_unenriched ec))
       \<and> (response_rate_unenriched ec = Fin 0 \<longrightarrow> enrichment_factor ec = Fin 1)
       \<and> (fl_less (Fin 0) (eligible_fraction ec) \<longrightarrow>
            number_needed_to_screen ec = fl_div (Fin 1) (eligible_fraction ec))
       \<and> (eligible_fraction ec = Fin 0 \<longrightarrow> number_needed_to_screen ec = PInf)
       \<and> (n_eligible ec = 0 \<longrightarrow> response_rate_enriched ec = Fin 0)"
proof -
  from generate_criteria_impact [OF assms] obtain i
    where i: "calculate_combined_impact d (cutoffs ec) = Inr i"
      and ec: "ec = make_criteria i (criteria ec) (biomarkers_used ec) (cutoffs ec)"
    by blast
  have sel: "eligible_fraction ec = eligible_fraction i" "n_total ec = n_total i"
    "n_eligible ec = n_eligible i" "response_rate_unenriched ec = response_rate_unenriched i"
    "response_rate_enriched ec = response_rate_enriched i"
    "enrichment_factor ec = enrichment_factor i"
    "number_needed_to_screen ec = number_needed_to_screen i"
    by (subst ec, simp)+
  show ?thesis
    unfolding sel
    using impact_arith [OF i] by auto
qed

text \<open>
  The theorem at two inputs: a rule that one of three patients meets, where both rates
  are positive, and a rule that nobody meets in a population without responders.
\<close>

theorem enrichment_arithmetic_witness:
  "(\<exists>ec. generate_criteria ex_data ex_fmt ex_ranked ex_cutoffs 3 (Fin (1 / 2)) = Inr ec
       \<and> eligible_fraction ec = Fin (1 / 3) \<and> n_eligible ec = 1 \<and> n_total ec = 3
       \<and> fl_less (Fin 0) (response_rate_unenriched ec)
       \<and> enrichment_factor ec = fl_div (response_rate_enriched ec) (response_rate_unenriched ec)
       \<and> number_needed_to_screen ec = Fin 3)
 \<and> (\<exists>ec. generate_criteria ex_data_no_response ex_fmt ex_ranked ex_cutoffs 3 (Fin 0) = Inr ec
       \<and> n_eligible ec = 0 \<and> response_rate_unenriched ec = Fin 0
       \<and> eligible_fraction ec = Fin 0
       \<and> enrichment_factor ec = Fin 1 \<and> number_needed_to_screen ec = PInf
       \<and> response_rate_enriched ec = Fin 0)"
proof -
  define ec1 where "ec1 = \<lparr>response_rate_unenriched = Fin (2 / 3),
        response_rate_enriched = Fin 0, eligible_fraction = Fin (1 / 3),
        enrichment_factor = Fin 0, number_needed_to_screen = Fin 3,
        n_eligible = 1, n_total = 3, criteria = [''a''],
        biomarkers_used = [''a''], cutoffs = [(''a'', 2 :: rat)]\<rparr>"
  define ec2 where "ec2 = \<lparr>response_rate_unenriched = Fin 0,
        response_rate_enriched = Fin 0, eligible_fraction = Fin 0,
        enrichment_factor = Fin 1, number_needed_to_screen = PInf,
        n_eligible = 0, n_total = 3, criteria = [''a'', ''b''],
        biomarkers_used = [''a'', ''b''], cutoffs = [(''a'', 2 :: rat), (''b'', 1)]\<rparr>"
  have h1: "generate_criteria ex_data ex_fmt ex_ranked ex_cutoffs 3 (Fin (1 / 2)) = Inr ec1"
    unfolding ec1_def by code_simp
  have h2: "generate_criteria ex_data_no_response ex_fmt ex_ranked ex_cutoffs 3 (Fin 0) = Inr ec2"
    unfolding ec2_def by code_simp
  have a1: "fl_less (Fin 0) (response_rate_unenriched ec1)"
    and b1: "eligible_fraction ec1 = Fin (1 / 3)" "n_eligible ec1 = 1" "n_total ec1 = 3"
    by (simp_all add: ec1_def)
  have a2: "n_eligible ec2 = 0" "response_rate_unenriched ec2 = Fin 0"
    "eligible_fraction ec2 = Fin 0"
    by (simp_all add: ec2_def)
  from enrichment_arithmetic [OF h1] a1 b1
  have c1: "enrichment_factor ec1 = fl_div (response_rate_enriched ec1) (response_rate_unenriched ec1)"
    "number_needed_to_screen ec1 = Fin 3"
    by simp_all
  from enrichment_arithmetic [OF h2] a2
  have c2: "enrichment_factor ec2 = Fin 1" "number_needed_to_screen ec2 = PInf"
    "response_rate_enriched ec2 = Fin 0"
    by simp_all
  show ?thesis
    using h1 h2 a1 b1 a2 c1 c2 by blast
qed

text \<open>
  Claim C1, at the input where the code departs from it.  \<open>optimize_multiple_cutoffs\<close>
  returns the frame without columns when every biomarker was skipped; with a ranked table
  that is not empty, \<open>generate_criteria\<close> then raises \<open>KeyError\<close> at
  \<open>cutoff_results["biomarker"]\<close> instead of returning criteria.
\<close>

theorem generate_criteria_keyerror_without_cutoffs:
  "\<not> df_empty ex_ranked
   \<and> generate_criteria ex_data ex_fmt ex_ranked (DataFrame []) 3 (Fin (1 / 5))
       = Inl (KeyError ''biomarker'')"
  by code_simp

lemma wf_column_len:
  assumes "wf_dataset d" "map_of (columns d) b = Some col"
  shows "col_len col = n_rows d"
proof -
  from assms(2) have "(b, col) \<in> set (columns d)" by (rule map_of_SomeD)
  with assms(1) show ?thesis by (auto simp: wf_dataset_def list_all_iff)
qed

lemma col_ge_nth:
  assumes "col_ge col c = Inr bm"
  shows "length bm = col_len col"
    and "i < col_len col \<Longrightarrow> bm ! i =
          (case col of NumCol vs \<Rightarrow> (case vs ! i of None \<Rightarrow> False | Some x \<Rightarrow> c \<le> x)
                     | CatCol ls \<Rightarrow> False)"
  using assms by (cases col; auto split: if_splits)+

lemma mask_and_nth:
  "length a = length b \<Longrightarrow> length (mask_and a b) = length a"
  "length a = length b \<Longrightarrow> i < length a \<Longrightarrow> mask_and a b ! i = (a ! i \<and> b ! i)"
  by (simp_all add: mask_and_def)

lemma apply_criteria_nth:
  assumes "wf_dataset d" "apply_criteria d cs m = Inr m'" "length m = n_rows d"
  shows "length m' = n_rows d \<and>
         (\<forall>i < n_rows d. m' ! i = (m ! i \<and> (\<forall>(b, c) \<in> set cs. satisfies d i b c)))"
  using assms(2,3)
proof (induction cs arbitrary: m)
  case Nil
  then show ?case by simp
next
  case (Cons bc cs)
  obtain b c where bc: "bc = (b, c)" by (cases bc)
  show ?case
  proof (cases "map_of (columns d) b")
    case None
    with Cons.prems bc have "apply_criteria d cs m = Inr m'" by simp
    from Cons.IH [OF this Cons.prems(2)] None bc show ?thesis
      by (simp add: satisfies_def)
  next
    case (Some col)
    with Cons.prems bc obtain bm where bm: "col_ge col c = Inr bm"
      and rest: "apply_criteria d cs (mask_and m bm) = Inr m'"
      by (auto split: sum.splits)
    have len: "col_len col = n_rows d" using assms(1) Some by (rule wf_column_len)
    have lbm: "length bm = n_rows d" using col_ge_nth(1) [OF bm] len by simp
    have lm: "length (mask_and m bm) = n_rows d"
      using mask_and_nth(1) [of m bm] lbm Cons.prems(2) by simp
    from Cons.IH [OF rest lm]
    have IH: "length m' = n_rows d"
      "\<forall>i<n_rows d. m' ! i = (mask_and m bm ! i \<and> (\<forall>(b, c)\<in>set cs. satisfies d i b c))"
      by simp_all
    have "m' ! i = (m ! i \<and> (\<forall>(b, c)\<in>set (bc # cs). satisfies d i b c))" if i: "i < n_rows d" for i
    proof -
      have "mask_and m bm ! i = (m ! i \<and> bm ! i)"
        using mask_and_nth(2) [of m bm i] lbm Cons.prems(2) i by simp
      moreover have "bm ! i = satisfies d i b c"
        using col_ge_nth(2) [OF bm, of i] i len Some by (simp add: satisfies_def)
      ultimately show ?thesis using IH(2) i bc by auto
    qed
    with IH(1) show ?thesis by blast
  qed
qed

lemma eligible_mask_nth:
  assumes "wf_dataset d" "eligible_mask_of d cs = Inr m"
  shows "length m = n_rows d"
    and "i < n_rows d \<Longrightarrow> m ! i = (i \<in> eligible_patients d cs)"
proof -
  from assms(2) obtain m0 where m0: "apply_criteria d cs (replicate (n_rows d) True) = Inr m0"
    and m: "m = mask_and m0 (valid_outcome_mask d)"
    by (auto simp: eligible_mask_of_def split: sum.splits)
  from apply_criteria_nth [OF assms(1) m0]
  have a: "length m0 = n_rows d"
    "\<forall>i<n_rows d. m0 ! i = (\<forall>(b, c)\<in>set cs. satisfies d i b c)" by simp_all
  have lv: "length (valid_outcome_mask d) = n_rows d"
    using assms(1) by (simp add: valid_outcome_mask_def wf_dataset_def)
  show "length m = n_rows d" using m a(1) lv mask_and_nth(1) [of m0 "valid_outcome_mask d"] by simp
  show "m ! i = (i \<in> eligible_patients d cs)" if "i < n_rows d"
  proof -
    have "m ! i = (m0 ! i \<and> valid_outcome_mask d ! i)"
      using m a(1) lv that mask_and_nth(2) [of m0 "valid_outcome_mask d" i] by simp
    moreover have "valid_outcome_mask d ! i = (outcome d ! i \<noteq> None)"
      using that assms(1) by (simp add: valid_outcome_mask_def wf_dataset_def)
    ultimately show ?thesis using a(2) that by (auto simp: eligible_patients_def)
  qed
qed

lemma build_criteria_Frame:
  "build_criteria fmt (Frame cs) rows (cl, used, cd) =
     Inr (cl @ map (\<lambda>b. fmt b (the (first_cutoff cs b)))
                (filter (\<lambda>b. first_cutoff cs b \<noteq> None) (map br_biomarker rows)),
          used @ filter (\<lambda>b. first_cutoff cs b \<noteq> None) (map br_biomarker rows),
          fold (\<lambda>b. AList.update b (the (first_cutoff cs b)))
               (filter (\<lambda>b. first_cutoff cs b \<noteq> None) (map br_biomarker rows)) cd)"
proof (induction rows arbitrary: cl used cd)
  case Nil
  show ?case by simp
next
  case (Cons row rows)
  show ?case
    by (cases "filter (\<lambda>c. co_biomarker c = br_biomarker row) cs")
       (simp_all add: Cons.IH first_cutoff_def)
qed


lemma fold_update_map_of:
  "map_of (fold (\<lambda>b. AList.update b (f b)) bs cd) =
     (\<lambda>b. if b \<in> set bs then Some (f b) else map_of cd b)"
  by (induction bs arbitrary: cd) (auto simp: update_conv' fun_eq_iff)


lemma fold_update_distinct:
  "distinct (map fst cd) \<Longrightarrow> distinct (map fst (fold (\<lambda>b. AList.update b (f b)) bs cd))"
  by (induction bs arbitrary: cd) (auto simp: distinct_update)









text \<open>
  Claim C9.  A patient with an outcome but with no value for a selected biomarker (a
  column of the data) has a true entry in the mask whose true entries \<open>n_total\<close> counts,
  and a false entry in the eligibility mask whose true entries \<open>n_eligible\<close> counts.
\<close>

theorem missing_biomarker_not_eligible:
  assumes wf: "wf_dataset d"
    and gen: "generate_criteria d fmt br cr mc mf = Inr ec"
    and sel: "(b, c) \<in> set (cutoffs ec)"
    and col: "map_of (columns d) b = Some col"
    and i: "i < n_rows d"
    and out: "outcome d ! i \<noteq> None"
    and miss: "\<not> notna col ! i"
  shows "\<exists>m. eligible_mask_of d (cutoffs ec) = Inr m
           \<and> n_total ec = mask_sum (valid_outcome_mask d) \<and> valid_outcome_mask d ! i
           \<and> n_eligible ec = mask_sum m \<and> i < length m \<and> \<not> m ! i"
proof -
  from generate_criteria_impact [OF gen] obtain imp
    where imp: "calculate_combined_impact d (cutoffs ec) = Inr imp"
      and ec: "ec = make_criteria imp (criteria ec) (biomarkers_used ec) (cutoffs ec)"
    by blast
  from imp obtain m where m: "eligible_mask_of d (cutoffs ec) = Inr m"
    and nt: "n_total imp = mask_sum (valid_outcome_mask d)"
    and ne: "n_eligible imp = mask_sum m"
    by (auto simp: calculate_combined_impact_def Let_def split: sum.splits)
  have sel_ec: "n_total ec = n_total imp" "n_eligible ec = n_eligible imp"
    by (subst ec, simp)+
  have len: "col_len col = n_rows d" using wf col by (rule wf_column_len)
  have "\<not> satisfies d i b c"
    using col miss i len by (cases col) (auto simp: satisfies_def)
  with sel have "i \<notin> eligible_patients d (cutoffs ec)"
    by (auto simp: eligible_patients_def)
  with eligible_mask_nth [OF wf m] i have "i < length m" "\<not> m ! i" by simp_all
  moreover have "valid_outcome_mask d ! i"
    using wf i out by (simp add: valid_outcome_mask_def wf_dataset_def)
  ultimately show ?thesis using m nt ne sel_ec by auto
qed

text \<open>
  Claim C2, as the code has it.  With a cutoff table that has columns, the biomarkers used
  before any backoff are those of the rows of \<open>biomarker_results.head(max_criteria)\<close>
  (the first \<open>max_criteria\<close> rows when \<open>max_criteria\<close> is not negative) that have a cutoff
  entry, in ranked order; the cutoff dictionary maps each of them to its first cutoff
  entry; and the eligibility mask is, at every patient, the conjunction of a present
  outcome and of the criterion of every selected biomarker.
\<close>

theorem selection_and_rule:
  fixes cs rs mc fmt d
  defines "sel \<equiv> filter (\<lambda>b. first_cutoff cs b \<noteq> None) (map br_biomarker (head_rows mc rs))"
  shows "selected_biomarkers fmt (Frame cs) mc (Frame rs) = Inr sel
       \<and> (0 \<le> mc \<longrightarrow> head_rows mc rs = take (nat mc) rs)
       \<and> (\<exists>cl cd. build_criteria fmt (Frame cs) (head_rows mc rs) ([], [], []) = Inr (cl, sel, cd)
             \<and> (\<forall>b. map_of cd b = (if b \<in> set sel then first_cutoff cs b else None))
             \<and> (wf_dataset d \<longrightarrow>
                  (\<forall>m. eligible_mask_of d cd = Inr m \<longrightarrow>
                     (\<forall>i < n_rows d. m ! i =
                        (outcome d ! i \<noteq> None \<and>
                         (\<forall>b \<in> set sel. satisfies d i b (the (first_cutoff cs b))))))))"
proof -
  let ?cd = "fold (\<lambda>b. AList.update b (the (first_cutoff cs b))) sel []"
  let ?cl = "map (\<lambda>b. fmt b (the (first_cutoff cs b))) sel"
  have build: "build_criteria fmt (Frame cs) (head_rows mc rs) ([], [], []) = Inr (?cl, sel, ?cd)"
    by (simp add: build_criteria_Frame sel_def)
  have mo: "map_of ?cd b = (if b \<in> set sel then first_cutoff cs b else None)" for b
    by (auto simp: fold_update_map_of sel_def)
  have pairs: "(\<forall>(b, c) \<in> set ?cd. P b c) \<longleftrightarrow> (\<forall>b \<in> set sel. P b (the (first_cutoff cs b)))" for P
  proof -
    have dist: "distinct (map fst ?cd)" by (rule fold_update_distinct) simp
    have in_sel: "\<exists>y. first_cutoff cs b = Some y" if "b \<in> set sel" for b
      using that by (auto simp: sel_def)
    have "(b, c) \<in> set ?cd \<longleftrightarrow> b \<in> set sel \<and> c = the (first_cutoff cs b)" for b c
      using map_of_eq_Some_iff [OF dist, of b c, symmetric] mo [of b] in_sel [of b]
      by (auto split: if_splits)
    then show ?thesis by (simp add: split_beta) (metis fst_conv snd_conv surjective_pairing)
  qed
  have rule: "m ! i = (outcome d ! i \<noteq> None \<and> (\<forall>b \<in> set sel. satisfies d i b (the (first_cutoff cs b))))"
    if "wf_dataset d" "eligible_mask_of d ?cd = Inr m" "i < n_rows d" for m i
    using eligible_mask_nth(2) [OF that] that(3) pairs [of "satisfies d i"]
    by (simp add: eligible_patients_def)
  have "0 \<le> mc \<longrightarrow> head_rows mc rs = take (nat mc) rs" by (simp add: head_rows_def)
  moreover have "selected_biomarkers fmt (Frame cs) mc (Frame rs) = Inr sel"
    using build by (simp add: selected_biomarkers_def)
  ultimately show ?thesis
    apply (intro conjI)
      apply assumption
     apply assumption
    apply (rule exI [of _ ?cl], rule exI [of _ ?cd])
    using build mo rule apply (intro conjI allI impI)
      apply assumption
     apply (rule mo)
    apply (rule rule; assumption)
    done
qed

lemma mask_and_replicate_True:
  "length m = n \<Longrightarrow> mask_and (replicate n True) m = m"
  by (simp add: mask_and_def list_eq_iff_nth_eq)

lemma mask_sum_valid_pos:
  "list_ex (\<lambda>y. y \<noteq> None) (outcome d) \<Longrightarrow> 0 < mask_sum (valid_outcome_mask d)"
  by (auto simp: mask_sum_def valid_outcome_mask_def list_ex_iff filter_map comp_def
                 filter_empty_conv)

text \<open>
  Claim C10, as the code has it.  With a ranked table that is not empty, a cutoff table
  that has columns but no entry for any of the top biomarkers, and at least one patient
  with an outcome, \<open>generate_criteria\<close> returns criteria with no rule, no biomarker and no
  cutoff, in which everybody with an outcome is eligible: the eligible fraction is 1, the
  two response rates are equal and the enrichment factor is 1 when the baseline rate is
  positive.
\<close>

theorem no_matching_cutoff:
  assumes nonempty: "\<not> df_empty br"
    and none: "\<forall>r \<in> set (head_rows mc (frame_rows br)). first_cutoff cs (br_biomarker r) = None"
    and wf: "wf_dataset d"
    and some: "list_ex (\<lambda>y. y \<noteq> None) (outcome d)"
  shows "\<exists>ec. generate_criteria d fmt br (Frame cs) mc mf = Inr ec
            \<and> criteria ec = [] \<and> biomarkers_used ec = [] \<and> cutoffs ec = []
            \<and> n_eligible ec = n_total ec
            \<and> eligible_fraction ec = Fin 1
            \<and> response_rate_enriched ec = response_rate_unenriched ec
            \<and> (fl_less (Fin 0) (response_rate_unenriched ec) \<longrightarrow> enrichment_factor ec = Fin 1)"
proof -
  let ?valid = "valid_outcome_mask d"
  let ?n = "mask_sum ?valid"
  let ?r = "fl_mean (masked_values ?valid (outcome d))"
  have sel: "filter (\<lambda>b. first_cutoff cs b \<noteq> None)
               (map br_biomarker (head_rows mc (frame_rows br))) = []"
    using none by (auto simp: filter_empty_conv)
  have build: "build_criteria fmt (Frame cs) (head_rows mc (frame_rows br)) ([], [], []) =
                 Inr ([], [], [])"
    unfolding build_criteria_Frame sel by simp
  have len: "length ?valid = n_rows d"
    using wf by (simp add: valid_outcome_mask_def wf_dataset_def)
  have mask: "eligible_mask_of d [] = Inr ?valid"
    using len by (simp add: eligible_mask_of_def mask_and_replicate_True)
  have pos: "0 < ?n" using some by (rule mask_sum_valid_pos)
  define i where "i = \<lparr> response_rate_unenriched = ?r, response_rate_enriched = ?r,
      eligible_fraction = Fin 1,
      enrichment_factor = (if fl_less (Fin 0) ?r then fl_div ?r ?r else Fin 1),
      number_needed_to_screen = Fin 1, n_eligible = ?n, n_total = ?n \<rparr>"
  have imp: "calculate_combined_impact d [] = Inr i"
    using pos by (simp add: calculate_combined_impact_def mask Let_def i_def)
  have gen: "generate_criteria d fmt br (Frame cs) mc mf = Inr (make_criteria i [] [] [])"
    using nonempty by (simp add: generate_criteria_def build imp)
  have factor: "enrichment_factor i = Fin 1" if "fl_less (Fin 0) (response_rate_unenriched i)"
  proof (cases ?r)
    case (Fin q)
    with that have "0 < q" by (simp add: i_def)
    with Fin show ?thesis by (simp add: i_def)
  qed (use that in \<open>simp_all add: i_def fl_mean_def split: if_splits\<close>)
  show ?thesis
    using gen factor by (simp add: i_def)
qed

text \<open>
  Claim C10 as it is worded fails when no patient has an outcome: the eligible fraction is
  then 0 by the guard on \<open>n_total\<close>, and the unenriched rate is the mean of an empty
  series.
\<close>

theorem no_matching_cutoff_counterexample:
  "generate_criteria ex_data_no_outcome ex_fmt ex_ranked (Frame []) 3 (Fin (1 / 5)) =
     Inr \<lparr> response_rate_unenriched = NaN, response_rate_enriched = Fin 0,
           eligible_fraction = Fin 0, enrichment_factor = Fin 1,
           number_needed_to_screen = PInf, n_eligible = 0, n_total = 0,
           criteria = [], biomarkers_used = [], cutoffs = [] \<rparr>"
  by code_simp

text \<open>The theorem on the example, with a cutoff table for another biomarker.\<close>

theorem no_matching_cutoff_witness:
  "\<exists>ec. generate_criteria ex_data ex_fmt ex_ranked (Frame [ex_cut ''z'' 1]) 3 (Fin (1 / 5)) = Inr ec
      \<and> cutoffs ec = [] \<and> n_eligible ec = n_total ec \<and> eligible_fraction ec = Fin 1
      \<and> response_rate_enriched ec = response_rate_unenriched ec
      \<and> response_rate_unenriched ec = Fin (2 / 3)
      \<and> enrichment_factor ec = Fin 1"
proof -
  have a: "\<not> df_empty ex_ranked" by code_simp
  have b: "\<forall>r \<in> set (head_rows 3 (frame_rows ex_ranked)).
             first_cutoff [ex_cut ''z'' 1] (br_biomarker r) = None"
    by code_simp
  have c: "wf_dataset ex_data" by code_simp
  have d: "list_ex (\<lambda>y. y \<noteq> None) (outcome ex_data)" by code_simp
  from no_matching_cutoff [OF a b c d, of ex_fmt "Fin (1 / 5)"] obtain ec
    where ec: "generate_criteria ex_data ex_fmt ex_ranked (Frame [ex_cut ''z'' 1]) 3 (Fin (1 / 5)) = Inr ec"
      "cutoffs ec = []" "n_eligible ec = n_total ec" "eligible_fraction ec = Fin 1"
      "response_rate_enriched ec = response_rate_unenriched ec"
      "fl_less (Fin 0) (response_rate_unenriched ec) \<longrightarrow> enrichment_factor ec = Fin 1"
    by blast
  have "generate_criteria ex_data ex_fmt ex_ranked (Frame [ex_cut ''z'' 1]) 3 (Fin (1 / 5)) =
     Inr \<lparr> response_rate_unenriched = Fin (2 / 3), response_rate_enriched = Fin (2 / 3),
           eligible_fraction = Fin 1, enrichment_factor = Fin 1,
           number_needed_to_screen = Fin 1, n_eligible = 3, n_total = 3,
           criteria = [], biomarkers_used = [], cutoffs = [] \<rparr>"
    by code_simp
  with ec(1) have r: "response_rate_unenriched ec = Fin (2 / 3)" by auto
  with ec(6) have "enrichment_factor ec = Fin 1" by simp
  with ec r show ?thesis by blast
qed

text \<open>
  Claim C2 as it is worded fails: with \<open>max_criteria = 2\<close> and a first-ranked biomarker
  without a cutoff, the code uses \<open>a\<close> only, while the first two ranked entries that have a
  cutoff are \<open>a\<close> and \<open>b\<close>.
\<close>

theorem selection_counterexample:
  "selected_biomarkers ex_fmt ex_cutoffs 2 ex_ranked3 = Inr [''a'']
   \<and> spec_selected_biomarkers (frame_rows ex_cutoffs) 2 (frame_rows ex_ranked3) = [''a'', ''b'']
   \<and> selected_biomarkers ex_fmt ex_cutoffs 2 ex_ranked3
       \<noteq> Inr (spec_selected_biomarkers (frame_rows ex_cutoffs) 2 (frame_rows ex_ranked3))"
  by code_simp

text \<open>
  The theorem on the example: of the first two ranked biomarkers only \<open>a\<close> has a cutoff,
  and the second patient is the one with an outcome and a value of \<open>a\<close> of at least 2.
\<close>

theorem selection_and_rule_witness:
  "selected_biomarkers ex_fmt ex_cutoffs 2 ex_ranked3 = Inr [''a'']
   \<and> build_criteria ex_fmt ex_cutoffs (head_rows 2 (frame_rows ex_ranked3)) ([], [], [])
       = Inr ([''a''], [''a''], [(''a'', 2)])
   \<and> eligible_mask_of ex_data [(''a'', 2)] = Inr [False, True, False, False]
   \<and> satisfies ex_data 1 ''a'' 2 \<and> \<not> satisfies ex_data 0 ''a'' 2"
proof -
  let ?cs = "[ex_cut ''a'' 2, ex_cut ''b'' 1]"
  let ?rs = "[ex_row ''x'', ex_row ''a'', ex_row ''b'']"
  let ?sel = "filter (\<lambda>b. first_cutoff ?cs b \<noteq> None) (map br_biomarker (head_rows 2 ?rs))"
  have sel: "?sel = [''a'']" by code_simp
  have fc: "the (first_cutoff ?cs ''a'') = 2" by code_simp
  have wf: "wf_dataset ex_data" by code_simp
  have b: "build_criteria ex_fmt (Frame ?cs) (head_rows 2 ?rs) ([], [], [])
             = Inr ([''a''], [''a''], [(''a'', 2)])"
    by code_simp
  have m: "eligible_mask_of ex_data [(''a'', 2)] = Inr [False, True, False, False]"
    by code_simp
  have n: "n_rows ex_data = 4" "outcome ex_data ! 1 \<noteq> None" "outcome ex_data ! 0 \<noteq> None"
    by (simp_all add: ex_data_def)
  from selection_and_rule [of ex_fmt ?cs 2 ?rs ex_data]
  have s: "selected_biomarkers ex_fmt (Frame ?cs) 2 (Frame ?rs) = Inr ?sel"
    and r: "\<exists>cl cd. build_criteria ex_fmt (Frame ?cs) (head_rows 2 ?rs) ([], [], []) = Inr (cl, ?sel, cd)
             \<and> (wf_dataset ex_data \<longrightarrow>
                  (\<forall>m. eligible_mask_of ex_data cd = Inr m \<longrightarrow>
                     (\<forall>i < n_rows ex_data. m ! i =
                        (outcome ex_data ! i \<noteq> None \<and>
                         (\<forall>b \<in> set ?sel. satisfies ex_data i b (the (first_cutoff ?cs b)))))))"
    by blast+
  from r b wf m
  have "\<forall>i < n_rows ex_data. [False, True, False, False] ! i =
          (outcome ex_data ! i \<noteq> None \<and>
           (\<forall>b \<in> set ?sel. satisfies ex_data i b (the (first_cutoff ?cs b))))"
    by auto
  then have "\<forall>i < 4. [False, True, False, False] ! i =
          (outcome ex_data ! i \<noteq> None \<and> satisfies ex_data i ''a'' 2)"
    unfolding sel n(1) by (simp add: fc)
  then have all: "\<And>i. i < 4 \<Longrightarrow> [False, True, False, False] ! i =
          (outcome ex_data ! i \<noteq> None \<and> satisfies ex_data i ''a'' 2)"
    by blast
  have "satisfies ex_data 1 ''a'' 2"
    using all [of 1] n(2) by simp
  moreover have "\<not> satisfies ex_data 0 ''a'' 2"
    using all [of 0] n(3) by simp
  ultimately have "satisfies ex_data 1 ''a'' 2" "\<not> satisfies ex_data 0 ''a'' 2"
    by blast+
  with s b m show ?thesis
    unfolding sel by (simp add: ex_cutoffs_def ex_ranked3_def)
qed


text \<open>The theorem for the third patient of the example, who has no value for \<open>a\<close>.\<close>

theorem missing_biomarker_not_eligible_witness:
  "\<exists>ec m. generate_criteria ex_data ex_fmt ex_ranked ex_cutoffs 3 (Fin (1 / 2)) = Inr ec
      \<and> eligible_mask_of ex_data (cutoffs ec) = Inr m
      \<and> n_total ec = mask_sum (valid_outcome_mask ex_data) \<and> valid_outcome_mask ex_data ! 2
      \<and> n_eligible ec = mask_sum m \<and> 2 < length m \<and> \<not> m ! 2
      \<and> n_total ec = 3 \<and> n_eligible ec = 1"
proof -
  define ec where "ec = \<lparr>response_rate_unenriched = Fin (2 / 3),
        response_rate_enriched = Fin 0, eligible_fraction = Fin (1 / 3),
        enrichment_factor = Fin 0, number_needed_to_screen = Fin 3,
        n_eligible = 1, n_total = 3, criteria = [''a''],
        biomarkers_used = [''a''], cutoffs = [(''a'', 2 :: rat)]\<rparr>"
  have wf: "wf_dataset ex_data" by code_simp
  have gen: "generate_criteria ex_data ex_fmt ex_ranked ex_cutoffs 3 (Fin (1 / 2)) = Inr ec"
    unfolding ec_def by code_simp
  have sel: "(''a'', 2) \<in> set (cutoffs ec)" by (simp add: ec_def)
  have col: "map_of (columns ex_data) ''a'' = Some (NumCol [Some 1, Some 5, None, Some 7])"
    by (simp add: ex_data_def)
  have i: "2 < n_rows ex_data" "outcome ex_data ! 2 \<noteq> None"
    "\<not> notna (NumCol [Some 1, Some 5, None, Some 7]) ! 2"
    by (simp_all add: ex_data_def)
  from missing_biomarker_not_eligible [OF wf gen sel col i]
  show ?thesis using gen by (auto simp: ec_def)
qed

section \<open>Properties of \<open>np.argmax\<close>\<close>

lemma fl_less_key: "a \<noteq> NaN \<Longrightarrow> b \<noteq> NaN \<Longrightarrow> fl_less a b \<longleftrightarrow> fl_key a < fl_key b"
  by (cases a; cases b) (simp_all add: less_prod_def)

lemma fl_le_trans: "fl_le a b \<Longrightarrow> fl_le b c \<Longrightarrow> fl_le a c"
  by (cases a; cases b; cases c) auto

lemma argmax_from_first_max:
  assumes "NaN \<notin> set ys"
  shows "i \<le> length ys \<Longrightarrow> first_max ys i bi \<Longrightarrow>
         first_max ys (length ys) (argmax_from (drop i ys) i bi (ys ! bi))"
proof (induction "length ys - i" arbitrary: i bi)
  case 0
  then show ?case by simp
next
  case (Suc n)
  then have i: "i < length ys" by simp
  have d: "drop i ys = ys ! i # drop (Suc i) ys"
    using i by (simp add: Cons_nth_drop_Suc)
  have bi: "bi < i" using Suc.prems(2) by (simp add: first_max_def)
  have nn: "ys ! i \<noteq> NaN" "ys ! bi \<noteq> NaN"
    using assms i bi by (metis nth_mem less_trans)+
  have n: "n = length ys - Suc i" using Suc.hyps(2) by simp
  show ?case
  proof (cases "fl_key (ys ! bi) < fl_key (ys ! i)")
    case True
    have "first_max ys (Suc i) i"
      unfolding first_max_def
    proof (intro conjI allI impI)
      show "i < Suc i" by simp
      fix j
      { assume "j < Suc i"
        then consider "j < i" | "j = i" by linarith
        then show "fl_key (ys ! j) \<le> fl_key (ys ! i)"
        proof cases
          case 1
          then have "fl_key (ys ! j) \<le> fl_key (ys ! bi)"
            using Suc.prems(2) by (simp add: first_max_def)
          with True show ?thesis by simp
        qed simp }
      { assume "j < i"
        then have "fl_key (ys ! j) \<le> fl_key (ys ! bi)"
          using Suc.prems(2) by (simp add: first_max_def)
        with True show "fl_key (ys ! j) < fl_key (ys ! i)" by simp }
    qed
    from Suc.hyps(1) [OF n _ this] i
    have "first_max ys (length ys) (argmax_from (drop (Suc i) ys) (Suc i) i (ys ! i))" by simp
    then show ?thesis
      using True nn by (simp add: d fl_less_key)
  next
    case False
    have "first_max ys (Suc i) bi"
      unfolding first_max_def
    proof (intro conjI allI impI)
      show "bi < Suc i" using bi by simp
      fix j
      { assume "j < Suc i"
        then consider "j < i" | "j = i" by linarith
        then show "fl_key (ys ! j) \<le> fl_key (ys ! bi)"
        proof cases
          case 1
          then show ?thesis using Suc.prems(2) by (simp add: first_max_def)
        next
          case 2
          then show ?thesis using False by simp
        qed }
      { assume "j < bi"
        then show "fl_key (ys ! j) < fl_key (ys ! bi)"
          using Suc.prems(2) by (simp add: first_max_def) }
    qed
    from Suc.hyps(1) [OF n _ this] i
    have "first_max ys (length ys) (argmax_from (drop (Suc i) ys) (Suc i) bi (ys ! bi))" by simp
    then show ?thesis
      using False nn by (simp add: d fl_less_key)
  qed
qed

lemma np_argmax_first_max:
  assumes "NaN \<notin> set ys" "ys \<noteq> []"
  shows "\<exists>i. np_argmax ys = Inr i \<and> first_max ys (length ys) i"
proof -
  obtain x rest where ys: "ys = x # rest" using assms(2) by (cases ys) auto
  have "first_max ys 1 0" by (simp add: first_max_def)
  from argmax_from_first_max [OF assms(1) _ this]
  have "first_max ys (length ys) (argmax_from (drop 1 ys) 1 0 (ys ! 0))"
    using ys by simp
  then show ?thesis by (simp add: np_argmax_def ys)
qed

lemma np_argmax_Nil: "np_argmax [] = Inl (ValueError ''attempt to get argmax of an empty sequence'')"
  by (simp add: np_argmax_def)

section \<open>Properties of float64 rounding\<close>










section \<open>Properties of the Threshold Optimizer\<close>

lemma youden_values_nth: "j < length roc \<Longrightarrow> youden_values roc ! j = youden (roc ! j)"
  by (simp add: youden_values_def youden_def)

lemma constraint_mask_nth:
  "j < length roc \<Longrightarrow> constraint_mask roc ms msp ! j = meets ms msp (roc ! j)"
  by (simp add: constraint_mask_def meets_def)

lemma constraint_mask_pos:
  "0 < mask_sum (constraint_mask roc ms msp) \<longleftrightarrow> (\<exists>j<length roc. meets ms msp (roc ! j))"
proof -
  have "0 < mask_sum (constraint_mask roc ms msp) \<longleftrightarrow> (\<exists>p \<in> set roc. meets ms msp p)"
    by (auto simp: mask_sum_def constraint_mask_def meets_def filter_map comp_def
          filter_empty_conv)
  then show ?thesis by (metis in_set_conv_nth)
qed

lemma argmax_youden:
  assumes "roc \<noteq> []"
  shows "\<exists>i<length roc. np_argmax (map Fin (youden_values roc)) = Inr i
           \<and> (\<forall>j<length roc. youden (roc ! j) \<le> youden (roc ! i))
           \<and> (\<forall>j<i. youden (roc ! j) < youden (roc ! i))"
proof -
  let ?ys = "map Fin (youden_values roc)"
  have len: "length ?ys = length roc" by (simp add: youden_values_def)
  have "NaN \<notin> set ?ys" "?ys \<noteq> []" using assms by (auto simp: youden_values_def)
  from np_argmax_first_max [OF this] obtain i
    where i: "np_argmax ?ys = Inr i" "first_max ?ys (length ?ys) i" by blast
  have nth: "?ys ! j = Fin (youden (roc ! j))" if "j < length roc" for j
    using that by (simp add: youden_values_def youden_def)
  have fm: "i < length roc"
    "\<And>j. j < length roc \<Longrightarrow> fl_key (?ys ! j) \<le> fl_key (?ys ! i)"
    "\<And>j. j < i \<Longrightarrow> fl_key (?ys ! j) < fl_key (?ys ! i)"
    using i(2) unfolding first_max_def len by blast+
  have il: "i < length roc" by (rule fm(1))
  have "youden (roc ! j) \<le> youden (roc ! i)" if "j < length roc" for j
  proof -
    have "fl_key (?ys ! j) \<le> fl_key (?ys ! i)"
      using that by (rule fm(2))
    then have "fl_key (Fin (youden (roc ! j))) \<le> fl_key (Fin (youden (roc ! i)))"
      by (simp only: nth [OF that] nth [OF il])
    then show ?thesis by (simp add: less_eq_prod_def)
  qed
  moreover have "youden (roc ! j) < youden (roc ! i)" if "j < i" for j
  proof -
    have jl: "j < length roc" using that il by simp
    have "fl_key (?ys ! j) < fl_key (?ys ! i)"
      using that by (rule fm(3))
    then have "fl_key (Fin (youden (roc ! j))) < fl_key (Fin (youden (roc ! i)))"
      by (simp only: nth [OF jl] nth [OF il])
    then show ?thesis by (simp add: less_prod_def)
  qed
  ultimately show ?thesis using i(1) il by blast
qed

lemma argmax_constrained:
  assumes "\<exists>j<length roc. meets ms msp (roc ! j)"
  shows "\<exists>i<length roc.
           np_argmax (map (\<lambda>(y, ok). if ok then Fin y else NInf)
                        (zip (youden_values roc) (constraint_mask roc ms msp))) = Inr i
           \<and> meets ms msp (roc ! i)
           \<and> (\<forall>j<length roc. meets ms msp (roc ! j) \<longrightarrow> youden (roc ! j) \<le> youden (roc ! i))
           \<and> (\<forall>j<i. meets ms msp (roc ! j) \<longrightarrow> youden (roc ! j) < youden (roc ! i))"
proof -
  let ?ys = "map (\<lambda>(y, ok). if ok then Fin y else NInf)
               (zip (youden_values roc) (constraint_mask roc ms msp))"
  have len: "length ?ys = length roc" by (simp add: youden_values_def constraint_mask_def)
  have nth: "?ys ! j = (if meets ms msp (roc ! j) then Fin (youden (roc ! j)) else NInf)"
    if "j < length roc" for j
    using that by (simp add: youden_values_def youden_def constraint_mask_def meets_def)
  have "NaN \<notin> set ?ys" by (auto split: if_splits)
  moreover have "?ys \<noteq> []" using assms len by (metis length_0_conv not_less_zero)
  ultimately obtain i where i: "np_argmax ?ys = Inr i" "first_max ?ys (length ?ys) i"
    using np_argmax_first_max by blast
  have fm: "i < length roc"
    "\<And>j. j < length roc \<Longrightarrow> fl_key (?ys ! j) \<le> fl_key (?ys ! i)"
    "\<And>j. j < i \<Longrightarrow> fl_key (?ys ! j) < fl_key (?ys ! i)"
    using i(2) unfolding first_max_def len by blast+
  have il: "i < length roc" by (rule fm(1))
  from assms obtain k where k: "k < length roc" "meets ms msp (roc ! k)" by blast
  have "fl_key (?ys ! k) \<le> fl_key (?ys ! i)"
    using k(1) by (rule fm(2))
  then have "fl_key (Fin (youden (roc ! k)))
      \<le> fl_key (if meets ms msp (roc ! i) then Fin (youden (roc ! i)) else NInf)"
    by (simp only: nth [OF k(1)] nth [OF il] k(2) if_True)
  then have mi: "meets ms msp (roc ! i)"
    by (cases "meets ms msp (roc ! i)") (simp_all add: less_eq_prod_def)
  have "youden (roc ! j) \<le> youden (roc ! i)" if "j < length roc" "meets ms msp (roc ! j)" for j
  proof -
    have "fl_key (?ys ! j) \<le> fl_key (?ys ! i)"
      using that(1) by (rule fm(2))
    then have "fl_key (Fin (youden (roc ! j))) \<le> fl_key (Fin (youden (roc ! i)))"
      by (simp only: nth [OF that(1)] nth [OF il] mi that(2) if_True)
    then show ?thesis by (simp add: less_eq_prod_def)
  qed
  moreover have "youden (roc ! j) < youden (roc ! i)" if "j < i" "meets ms msp (roc ! j)" for j
  proof -
    have jl: "j < length roc" using that(1) il by simp
    have "fl_key (?ys ! j) < fl_key (?ys ! i)"
      using that(1) by (rule fm(3))
    then have "fl_key (Fin (youden (roc ! j))) < fl_key (Fin (youden (roc ! i)))"
      by (simp only: nth [OF jl] nth [OF il] mi that(2) if_True)
    then show ?thesis by (simp add: less_prod_def)
  qed
  ultimately show ?thesis using i(1) il mi by blast
qed


lemma youden_optimal_idx_fallback:
  assumes "\<not> (\<exists>j<length roc. meets ms msp (roc ! j))"
  shows "youden_optimal_idx roc ms msp = youden_optimal_idx roc None None"
proof -
  have "\<not> 0 < mask_sum (constraint_mask roc ms msp)"
    using assms constraint_mask_pos by blast
  then show ?thesis
    by (simp add: youden_optimal_idx_def Let_def split: sum.splits)
qed

lemma youden_optimal_idx_constrained:
  assumes "ms \<noteq> None \<or> msp \<noteq> None" "\<exists>j<length roc. meets ms msp (roc ! j)"
  shows "youden_optimal_idx roc ms msp =
           np_argmax (map (\<lambda>(y, ok). if ok then Fin y else NInf)
                        (zip (youden_values roc) (constraint_mask roc ms msp)))"
proof -
  have roc: "roc \<noteq> []" using assms(2) by auto
  from argmax_youden [OF roc] obtain i where "np_argmax (map Fin (youden_values roc)) = Inr i"
    by blast
  moreover have "0 < mask_sum (constraint_mask roc ms msp)"
    using assms(2) constraint_mask_pos by blast
  ultimately show ?thesis
    using assms(1) by (auto simp: youden_optimal_idx_def Let_def)
qed


lemma youden_cutoff_InrD:
  assumes "youden_cutoff b X as_value y p roc ms msp = Inr r"
  shows "\<exists>i. youden_optimal_idx roc ms msp = Inr i
           \<and> sensitivity r = tpr (roc ! i) \<and> specificity r = f64_sub 1 (fpr (roc ! i))
           \<and> youden_index r = youden_values roc ! i \<and> co_biomarker r = b"
  using assms
  by (auto simp: youden_cutoff_def Let_def split: sum.splits)

lemma optimize_cutoff_InrD:
  assumes "optimize_cutoff d fp rc b method ms msp = Inr r"
  shows "\<exists>X y p roc i. fit_roc d fp rc b = Inr (X, y, p, roc)
           \<and> youden_optimal_idx roc ms msp = Inr i
           \<and> sensitivity r = tpr (roc ! i) \<and> specificity r = f64_sub 1 (fpr (roc ! i))
           \<and> youden_index r = youden_values roc ! i \<and> co_biomarker r = b"
proof -
  from assms obtain X y p roc where fit: "fit_roc d fp rc b = Inr (X, y, p, roc)"
    by (auto simp: optimize_cutoff_def split: sum.splits)
  from assms fit have "\<exists>i. youden_optimal_idx roc ms msp = Inr i
           \<and> sensitivity r = tpr (roc ! i) \<and> specificity r = f64_sub 1 (fpr (roc ! i))
           \<and> youden_index r = youden_values roc ! i \<and> co_biomarker r = b"
    by (cases X) (auto simp: optimize_cutoff_def split: if_splits dest: youden_cutoff_InrD)
  with fit show ?thesis by blast
qed

lemma optimize_cutoff_fallback:
  assumes "youden_optimal_idx roc ms msp = youden_optimal_idx roc None None"
    and "fit_roc d fp rc b = Inr (X, y, p, roc)"
  shows "optimize_cutoff d fp rc b method ms msp = optimize_cutoff d fp rc b method None None"
  using assms by (cases X) (simp_all add: optimize_cutoff_def youden_cutoff_def)

text \<open>
  Rounding decides between thresholds that tie in exact arithmetic: with three responders
  in ten found before the first of ten non-responders and a fourth right after it, the
  rates give 3/10 - 0 = 4/10 - 1/10, but the float \<open>0.4 - 0.1\<close> is above the float
  \<open>0.3 - 0.0\<close>, and the later threshold is selected.
\<close>

lemma youden_rounding_example:
  "youden_optimal_idx
     [\<lparr> fpr = 0, tpr = 0, threshold = PInf \<rparr>,
      \<lparr> fpr = 0, tpr = f64_round (3 / 10), threshold = Fin (4 / 5) \<rparr>,
      \<lparr> fpr = f64_round (1 / 10), tpr = f64_round (3 / 10), threshold = Fin (3 / 5) \<rparr>,
      \<lparr> fpr = f64_round (1 / 10), tpr = f64_round (4 / 10), threshold = Fin (1 / 2) \<rparr>,
      \<lparr> fpr = 1, tpr = 1, threshold = Fin (1 / 10) \<rparr>] None None = Inr 3"
  by code_simp

text \<open>
  A column of labels that the regression converts: the cutoff returned is a label, and
  the patients at or above it are those whose label is not below it as a string, here the
  labels 7, 8 and 9.
\<close>

lemma label_cutoff_example:
  "optimize_cutoff ex_labels ex_fit_labels ex_boundary_roc_curve ''c'' ''youden'' None None
     = Inr \<lparr> co_biomarker = ''c'', cutoff = CatV ''7'',
             sensitivity = f64_round (14 / 15), specificity = 1,
             youden_index = f64_round (14 / 15),
             response_rate_above = 1, response_rate_below = 12 / 17,
             n_above = 3, n_below = 17 \<rparr>"
  by code_simp





text \<open>
  What the code does under constraints, in terms of the floats it tests.  If no evaluated
  threshold passes the tests, the call returns what the unconstrained call returns.  If
  one does, the selected threshold \<open>i\<close> passes them, no threshold passing them has a higher
  float \<open>tpr - fpr\<close>, every earlier one passing them has a strictly lower one, and the
  result reports the rates of threshold \<open>i\<close>.
\<close>

lemma constrained_selection:
  assumes c: "ms \<noteq> None \<or> msp \<noteq> None"
    and fit: "fit_roc d fp rc b = Inr (X, y, p, roc)"
  shows "(\<not> (\<exists>j<length roc. meets ms msp (roc ! j)) \<longrightarrow>
            optimize_cutoff d fp rc b method ms msp = optimize_cutoff d fp rc b method None None)
       \<and> ((\<exists>j<length roc. meets ms msp (roc ! j)) \<longrightarrow>
            (\<exists>i<length roc. youden_optimal_idx roc ms msp = Inr i
               \<and> meets ms msp (roc ! i)
               \<and> (\<forall>j<length roc. meets ms msp (roc ! j) \<longrightarrow> youden (roc ! j) \<le> youden (roc ! i))
               \<and> (\<forall>j<i. meets ms msp (roc ! j) \<longrightarrow> youden (roc ! j) < youden (roc ! i))
               \<and> (\<forall>r. optimize_cutoff d fp rc b method ms msp = Inr r \<longrightarrow>
                     sensitivity r = tpr (roc ! i)
                     \<and> specificity r = f64_sub 1 (fpr (roc ! i))
                     \<and> youden_index r = youden (roc ! i))))"
proof (intro conjI impI)
  assume "\<not> (\<exists>j<length roc. meets ms msp (roc ! j))"
  then have "youden_optimal_idx roc ms msp = youden_optimal_idx roc None None"
    by (rule youden_optimal_idx_fallback)
  then show "optimize_cutoff d fp rc b method ms msp = optimize_cutoff d fp rc b method None None"
    using fit by (rule optimize_cutoff_fallback)
next
  assume ex: "\<exists>j<length roc. meets ms msp (roc ! j)"
  from argmax_constrained [OF ex] youden_optimal_idx_constrained [OF c ex]
  obtain i where i: "i < length roc" "youden_optimal_idx roc ms msp = Inr i"
    "meets ms msp (roc ! i)"
    "\<forall>j<length roc. meets ms msp (roc ! j) \<longrightarrow> youden (roc ! j) \<le> youden (roc ! i)"
    "\<forall>j<i. meets ms msp (roc ! j) \<longrightarrow> youden (roc ! j) < youden (roc ! i)"
    by auto
  have "sensitivity r = tpr (roc ! i) \<and> specificity r = f64_sub 1 (fpr (roc ! i))
          \<and> youden_index r = youden (roc ! i)"
    if "optimize_cutoff d fp rc b method ms msp = Inr r" for r
    using optimize_cutoff_InrD [OF that] fit i(1,2) by (auto simp: youden_values_nth)
  with i show "\<exists>i<length roc. youden_optimal_idx roc ms msp = Inr i
               \<and> meets ms msp (roc ! i)
               \<and> (\<forall>j<length roc. meets ms msp (roc ! j) \<longrightarrow> youden (roc ! j) \<le> youden (roc ! i))
               \<and> (\<forall>j<i. meets ms msp (roc ! j) \<longrightarrow> youden (roc ! j) < youden (roc ! i))
               \<and> (\<forall>r. optimize_cutoff d fp rc b method ms msp = Inr r \<longrightarrow>
                     sensitivity r = tpr (roc ! i)
                     \<and> specificity r = f64_sub 1 (fpr (roc ! i))
                     \<and> youden_index r = youden (roc ! i))"
    by blast
qed


section \<open>Properties of the Signal Estimator\<close>

lemma filter_length_mono:
  "(\<And>x. P x \<Longrightarrow> Q x) \<Longrightarrow> length (filter P xs) \<le> length (filter Q xs)"
  by (induction xs) auto

lemma head_rows_length_mono:
  "length xs \<le> length ys \<Longrightarrow> length (head_rows n xs) \<le> length (head_rows n ys)"
  by (auto simp: head_rows_def)

lemma set_head_rows: "set (head_rows n xs) \<subseteq> set xs"
  by (simp add: head_rows_def set_take_subset)

text \<open>
  Claim C7. For every dataset, estimator, biomarker list and \<open>top_n\<close>, and all thresholds
  \<open>a \<le> b\<close>, \<open>analyze_biomarkers\<close> with \<open>min_auc = b\<close> returns at most as many biomarkers as
  with \<open>min_auc = a\<close>.
\<close>

theorem monotone_filtering:
  assumes "fl_le a b"
  shows "length (frame_rows (analyze_biomarkers d estimate biomarker_list b top_n))
       \<le> length (frame_rows (analyze_biomarkers d estimate biomarker_list a top_n))"
proof -
  have "fl_le a (Fin (br_AUC r))" if "fl_le b (Fin (br_AUC r))" for r :: biomarker_result
    using assms that by (rule fl_le_trans)
  then have "length (filter (\<lambda>r. fl_le b (Fin (br_AUC r))) xs)
      \<le> length (filter (\<lambda>r. fl_le a (Fin (br_AUC r))) xs)" for xs :: "biomarker_result list"
    by (rule filter_length_mono)
  then show ?thesis
    by (simp add: analyze_biomarkers_def Let_def head_rows_length_mono)
qed

text \<open>
  Claim C7 on the trial of twenty patients: two biomarkers pass \<open>min_auc = 0.4\<close>, one
  passes \<open>min_auc = 0.6\<close>.
\<close>

theorem monotone_filtering_witness:
  "fl_le (Fin (4 / 10)) (Fin (6 / 10))
   \<and> length (frame_rows (analyze_biomarkers ex_trial ex_estimate [''m'', ''s'', ''g'', ''zz'']
        (Fin (6 / 10)) 5)) = 1
   \<and> length (frame_rows (analyze_biomarkers ex_trial ex_estimate [''m'', ''s'', ''g'', ''zz'']
        (Fin (4 / 10)) 5)) = 2
   \<and> length (frame_rows (analyze_biomarkers ex_trial ex_estimate [''m'', ''s'', ''g'', ''zz'']
        (Fin (6 / 10)) 5))
     \<le> length (frame_rows (analyze_biomarkers ex_trial ex_estimate [''m'', ''s'', ''g'', ''zz'']
        (Fin (4 / 10)) 5))"
proof -
  have h: "fl_le (Fin (4 / 10)) (Fin (6 / 10))" by simp
  have n1: "length (frame_rows (analyze_biomarkers ex_trial ex_estimate
      [''m'', ''s'', ''g'', ''zz''] (Fin (6 / 10)) 5)) = 1"
    by code_simp
  have n2: "length (frame_rows (analyze_biomarkers ex_trial ex_estimate
      [''m'', ''s'', ''g'', ''zz''] (Fin (4 / 10)) 5)) = 2"
    by code_simp
  from monotone_filtering [OF h, of ex_trial ex_estimate "[''m'', ''s'', ''g'', ''zz'']" 5] h n1 n2
  show ?thesis by (intro conjI)
qed

section \<open>Biomarkers with fewer than twenty complete pairs\<close>

lemma analyze_results_append:
  "analyze_results d estimate (xs @ ys) = analyze_results d estimate xs @ analyze_results d estimate ys"
  by (induction xs) (auto split: sum.splits option.splits)

lemma analyze_results_biomarker:
  "r \<in> set (analyze_results d estimate bl) \<Longrightarrow>
     analyze_single_biomarker d estimate (br_biomarker r) = Inr (Some r)"
proof (induction bl)
  case Nil
  then show ?case by simp
next
  case (Cons b bl)
  show ?case
  proof (cases "analyze_single_biomarker d estimate b")
    case (Inl e)
    with Cons show ?thesis by simp
  next
    case (Inr res)
    show ?thesis
    proof (cases res)
      case None
      with Inr Cons show ?thesis by simp
    next
      case (Some r')
      have "br_biomarker r' = b"
        using Inr Some
        by (auto simp: analyze_single_biomarker_def split: option.splits if_splits sum.splits)
      with Inr Some Cons show ?thesis by auto
    qed
  qed
qed

lemma analyze_biomarkers_rows:
  "set (frame_rows (analyze_biomarkers d estimate bl min_auc top_n))
     \<subseteq> set (analyze_results d estimate bl)"
proof -
  have "set (head_rows top_n (filter P (sort_key f xs))) \<subseteq> set xs"
    for P and f :: "biomarker_result \<Rightarrow> rat \<times> rat" and xs
    using set_head_rows [of top_n "filter P (sort_key f xs)"] by auto
  then show ?thesis
    by (auto simp: analyze_biomarkers_def Let_def DataFrame_def df_empty_def)
qed

lemma cutoff_results_of_append:
  "cutoff_results_of d fp rc (xs @ ys) method
     = cutoff_results_of d fp rc xs method @ cutoff_results_of d fp rc ys method"
  by (induction xs) (auto split: sum.splits)

lemma cutoff_results_of_biomarker:
  "r \<in> set (cutoff_results_of d fp rc bl method) \<Longrightarrow>
     optimize_cutoff d fp rc (co_biomarker r) method None None = Inr r"
proof (induction bl)
  case Nil
  then show ?case by simp
next
  case (Cons b bl)
  show ?case
  proof (cases "optimize_cutoff d fp rc b method None None")
    case (Inl e)
    with Cons show ?thesis by simp
  next
    case (Inr r')
    have "co_biomarker r' = b" using optimize_cutoff_InrD [OF Inr] by blast
    with Inr Cons show ?thesis by auto
  qed
qed

lemma optimize_multiple_cutoffs_rows:
  "frame_rows (optimize_multiple_cutoffs d fp rc bl method) = cutoff_results_of d fp rc bl method"
  by (simp add: optimize_multiple_cutoffs_def DataFrame_def)

text \<open>
  Claim C8. Let \<open>biomarker\<close> be a column of the data with fewer than 20 patients having both
  its value and the outcome. Then \<open>_analyze_single_biomarker\<close> returns \<open>None\<close> without
  raising, no row of a table returned by \<open>analyze_biomarkers\<close> is for this biomarker, and
  the batch returns what it returns for the list without it. \<open>optimize_cutoff\<close> raises the
  insufficient-data \<open>ValueError\<close>, whatever the method and the constraints. No row of a
  table returned by \<open>optimize_multiple_cutoffs\<close> is for this biomarker, and the batch
  returns what it returns for the list without it: the biomarkers before and after it are
  processed as if it were absent.
\<close>

theorem insufficient_pairs:
  assumes col: "map_of (columns d) biomarker = Some col"
    and few: "mask_sum (valid_idx d col) < 20"
  shows "analyze_single_biomarker d estimate biomarker = Inr None
       \<and> biomarker \<notin> br_biomarker ` set (frame_rows
            (analyze_biomarkers d estimate biomarker_list min_auc top_n))
       \<and> analyze_biomarkers d estimate (before @ biomarker # rest) min_auc top_n
           = analyze_biomarkers d estimate (before @ rest) min_auc top_n
       \<and> optimize_cutoff d fit_predict roc_curve biomarker method min_sensitivity min_specificity
           = Inl (insufficient_data biomarker)
       \<and> biomarker \<notin> co_biomarker ` set (frame_rows
            (optimize_multiple_cutoffs d fit_predict roc_curve biomarker_list method))
       \<and> optimize_multiple_cutoffs d fit_predict roc_curve (before @ biomarker # rest) method
           = optimize_multiple_cutoffs d fit_predict roc_curve (before @ rest) method"
proof -
  have single: "analyze_single_biomarker d estimate biomarker = Inr None"
    using col few by (simp add: analyze_single_biomarker_def)
  have fit: "fit_roc d fit_predict roc_curve biomarker = Inl (insufficient_data biomarker)"
    using col few by (simp add: fit_roc_def)
  have opt: "optimize_cutoff d fit_predict roc_curve biomarker m ms msp
      = Inl (insufficient_data biomarker)" for m ms msp
    by (simp add: optimize_cutoff_def fit)
  have notin1: "biomarker \<notin> br_biomarker ` set (frame_rows
      (analyze_biomarkers d estimate biomarker_list min_auc top_n))"
  proof
    assume "biomarker \<in> br_biomarker ` set (frame_rows
      (analyze_biomarkers d estimate biomarker_list min_auc top_n))"
    then obtain r where r: "r \<in> set (analyze_results d estimate biomarker_list)"
      "br_biomarker r = biomarker"
      using analyze_biomarkers_rows [of d estimate biomarker_list min_auc top_n] by auto
    from analyze_results_biomarker [OF r(1)] r(2) single show False by simp
  qed
  have notin2: "biomarker \<notin> co_biomarker ` set (frame_rows
      (optimize_multiple_cutoffs d fit_predict roc_curve biomarker_list method))"
  proof
    assume "biomarker \<in> co_biomarker ` set (frame_rows
      (optimize_multiple_cutoffs d fit_predict roc_curve biomarker_list method))"
    then obtain r where r: "r \<in> set (cutoff_results_of d fit_predict roc_curve biomarker_list method)"
      "co_biomarker r = biomarker"
      by (auto simp: optimize_multiple_cutoffs_rows)
    from cutoff_results_of_biomarker [OF r(1)] r(2) opt show False by simp
  qed
  have skip1: "analyze_results d estimate (before @ biomarker # rest)
      = analyze_results d estimate (before @ rest)"
    by (simp add: analyze_results_append single)
  have skip2: "cutoff_results_of d fit_predict roc_curve (before @ biomarker # rest) method
      = cutoff_results_of d fit_predict roc_curve (before @ rest) method"
    by (simp add: cutoff_results_of_append opt)
  have eq1: "analyze_biomarkers d estimate (before @ biomarker # rest) min_auc top_n
      = analyze_biomarkers d estimate (before @ rest) min_auc top_n"
    unfolding analyze_biomarkers_def skip1 ..
  have eq2: "optimize_multiple_cutoffs d fit_predict roc_curve (before @ biomarker # rest) method
      = optimize_multiple_cutoffs d fit_predict roc_curve (before @ rest) method"
    unfolding optimize_multiple_cutoffs_def skip2 ..
  from single notin1 eq1 opt notin2 eq2 show ?thesis by (intro conjI)
qed

text \<open>
  Claim C8 on the trial of twenty patients: biomarker \<open>s\<close> has five complete pairs.
\<close>

theorem insufficient_pairs_witness:
  "map_of (columns ex_trial) ''s''
     = Some (NumCol (map (\<lambda>k. if k < 6 then Some (rat_of_nat k) else None) [1..<21]))
   \<and> mask_sum (valid_idx ex_trial
        (NumCol (map (\<lambda>k. if k < 6 then Some (rat_of_nat k) else None) [1..<21]))) = 5
   \<and> analyze_single_biomarker ex_trial ex_estimate ''s'' = Inr None
   \<and> analyze_biomarkers ex_trial ex_estimate ([''m''] @ ''s'' # [''g'']) (Fin (4 / 10)) 5
       = analyze_biomarkers ex_trial ex_estimate ([''m''] @ [''g'']) (Fin (4 / 10)) 5
   \<and> length (frame_rows (analyze_biomarkers ex_trial ex_estimate [''m'', ''g'']
        (Fin (4 / 10)) 5)) = 2
   \<and> optimize_cutoff ex_trial ex_fit_predict ex_roc_curve ''s'' ''youden'' None None
       = Inl (insufficient_data ''s'')
   \<and> optimize_multiple_cutoffs ex_trial ex_fit_predict ex_roc_curve ([''m''] @ ''s'' # [''g''])
         ''youden''
       = optimize_multiple_cutoffs ex_trial ex_fit_predict ex_roc_curve ([''m''] @ [''g'']) ''youden''
   \<and> optimize_multiple_cutoffs ex_trial ex_fit_predict ex_roc_curve [''m'', ''g''] ''youden''
       = Frame [ex_result_m]"
proof -
  let ?col = "NumCol (map (\<lambda>k. if k < 6 then Some (rat_of_nat k) else None) [1..<21])"
  have c: "map_of (columns ex_trial) ''s'' = Some ?col" by code_simp
  have n: "mask_sum (valid_idx ex_trial ?col) = 5" by code_simp
  then have f: "mask_sum (valid_idx ex_trial ?col) < 20" by simp
  have two: "length (frame_rows (analyze_biomarkers ex_trial ex_estimate [''m'', ''g'']
        (Fin (4 / 10)) 5)) = 2"
    by code_simp
  have one: "optimize_multiple_cutoffs ex_trial ex_fit_predict ex_roc_curve [''m'', ''g''] ''youden''
       = Frame [ex_result_m]"
    by code_simp
  from insufficient_pairs [OF c f, of ex_estimate "[]" "Fin (4 / 10)" 5 "[''m'']" "[''g'']"
      ex_fit_predict ex_roc_curve "''youden''" None None] c n two one
  show ?thesis by (intro conjI) blast+
qed

end
